theory Spec2Isabelle
  imports Complex_Main "HOL-Library.Multiset" "HOL-Library.Sublist"
begin

section \<open>JavaScript values and library functions used by the handlers\<close>

text \<open>
  The repository is one TypeScript file, \<^verbatim>\<open>src/index.ts\<close>, holding two versions of the
  agent one after the other: version A (overview, lookup, search, top, compare, report)
  and version B (overview, recent, significant, nearby, magnitude, regional report).

  Conventions of the embedding:
  \<^item> a JavaScript number is a \<open>real\<close> (an \<open>int\<close> where the JSON value is a count or an
    integer score); NaN, the infinities and rounding of doubles are not modelled;
  \<^item> a JSON field that may be \<^verbatim>\<open>null\<close> is an \<open>option\<close>; where the code uses such a value
    in arithmetic or in a relational comparison, JavaScript converts \<^verbatim>\<open>null\<close> to \<open>0\<close>,
    which is \<open>ToNumber\<close> below;
  \<^item> a rejected promise or a thrown exception is the \<open>Inl\<close> branch of a sum type.
\<close>

definition ToNumber :: "'a::zero option \<Rightarrow> 'a" where
  "ToNumber v = (case v of None \<Rightarrow> 0 | Some x \<Rightarrow> x)"

text \<open>
  \<^verbatim>\<open>Array.prototype.sort(cmp)\<close>. ECMAScript (2019 and later) requires the sort to be stable:
  \<open>a\<close> is placed before \<open>b\<close> when \<open>cmp(a, b) < 0\<close>, after it when \<open>cmp(a, b) > 0\<close>, and the two
  keep their order when \<open>cmp(a, b) = 0\<close>. For a consistent comparator every such algorithm
  returns the same array; it is written here as an insertion sort that inserts an element
  in front of the first element it does not have to follow.
\<close>

fun js_insert :: "('a \<Rightarrow> 'a \<Rightarrow> real) \<Rightarrow> 'a \<Rightarrow> 'a list \<Rightarrow> 'a list" where
  "js_insert cmp x [] = [x]"
| "js_insert cmp x (y # ys) = (if cmp x y \<le> 0 then x # y # ys else y # js_insert cmp x ys)"

definition Array_sort :: "('a \<Rightarrow> 'a \<Rightarrow> real) \<Rightarrow> 'a list \<Rightarrow> 'a list" where
  "Array_sort cmp xs = foldr (js_insert cmp) xs []"

text \<open>
  \<^verbatim>\<open>Math.max(...xs)\<close>. With no argument JavaScript returns \<open>-Infinity\<close>, for which the model has
  no value; every call site guards the call with \<^verbatim>\<open>xs.length > 0\<close>, so the first equation is
  never reached from a handler.
\<close>

fun Math_max :: "real list \<Rightarrow> real" where
  "Math_max [] = 0"
| "Math_max (x # xs) = fold max xs x"

text \<open>\<^verbatim>\<open>Math.round\<close>: the nearest integer, a tie going up.\<close>

definition Math_round :: "real \<Rightarrow> int" where
  "Math_round x = \<lfloor>x + 1 / 2\<rfloor>"

text \<open>
  \<^verbatim>\<open>Number(x.toFixed(2))\<close>: \<open>x\<close> rounded to two decimals, a tie going away from zero; from
  \<open>10^21\<close> on \<^verbatim>\<open>toFixed\<close> prints the number itself.
\<close>

definition toFixed2 :: "real \<Rightarrow> real" where
  "toFixed2 x =
     (if \<bar>x\<bar> \<ge> 10 ^ 21 then x
      else if x < 0 then - (of_int \<lfloor>(- x) * 100 + 1 / 2\<rfloor> / 100)
      else of_int \<lfloor>x * 100 + 1 / 2\<rfloor> / 100)"

text \<open>\<^verbatim>\<open>Math.atan2(y, x)\<close> on the reals (the sign of a zero is not modelled).\<close>

definition Math_atan2 :: "real \<Rightarrow> real \<Rightarrow> real" where
  "Math_atan2 y x =
     (if x > 0 then arctan (y / x)
      else if x < 0 \<and> y \<ge> 0 then arctan (y / x) + pi
      else if x < 0 \<and> y < 0 then arctan (y / x) - pi
      else if y > 0 then pi / 2
      else if y < 0 then - (pi / 2)
      else 0)"

section \<open>The upstream feed\<close>

text \<open>
  One GeoJSON feature of a USGS response: \<^verbatim>\<open>feature.id\<close>, the fields of
  \<^verbatim>\<open>feature.properties\<close> the code reads, and \<^verbatim>\<open>feature.geometry.coordinates = [lon, lat, depth]\<close>.
\<close>

record feature =
  fid :: string
  mag :: "real option"
  magType :: "string option"
  p_place :: "string option"
  p_time :: int
  p_updated :: int
  sig :: "int option"
  p_felt :: "int option"
  p_alert :: "string option"
  p_tsunami :: "int option"
  p_url :: "string option"
  lon :: real
  lat :: real
  depth_km :: real

text \<open>A response body: \<^verbatim>\<open>metadata.count\<close> and \<^verbatim>\<open>features\<close>.\<close>

record geojson =
  count :: int
  features :: "feature list"

text \<open>
  The URL of a request. The query strings are built from numbers and dates by template
  literals; the model keeps the parameters and not their printed form.
\<close>

record query_params =
  starttime :: string
  endtime :: "string option"
  q_latitude :: real
  q_longitude :: real
  maxradiuskm :: real
  minmagnitude :: real
  maxmagnitude :: "real option"
  q_limit :: "real option"
  orderby :: "string option"

datatype request =
  SummaryFeed string
| EventQuery query_params

text \<open>
  What \<^verbatim>\<open>fetch\<close> gives back: the promise rejects (host unreachable), or it resolves to a
  response with a status and a body that parses as JSON or does not.
\<close>

datatype http_response =
  Unreachable
| Response int "geojson option"

datatype error =
  FetchRejected
| UsgsApiError int
| JsonSyntaxError
| TypeError
| ValidationError

type_synonym upstream = "request \<Rightarrow> http_response"

text \<open>\<^verbatim>\<open>response.ok\<close> is true for the statuses 200 to 299.\<close>

definition response_ok :: "int \<Rightarrow> bool" where
  "response_ok status = (200 \<le> status \<and> status \<le> 299)"

text \<open>\<^verbatim>\<open>fetchJSON\<close> (version A) and \<^verbatim>\<open>fetchUSGS\<close> (version B) have the same body.\<close>

definition fetchJSON :: "upstream \<Rightarrow> request \<Rightarrow> error + geojson" where
  "fetchJSON net url =
     (case net url of
        Unreachable \<Rightarrow> Inl FetchRejected
      | Response status body \<Rightarrow>
          if \<not> response_ok status then Inl (UsgsApiError status)
          else (case body of None \<Rightarrow> Inl JsonSyntaxError | Some d \<Rightarrow> Inr d))"

definition fetchUSGS :: "upstream \<Rightarrow> string \<Rightarrow> error + geojson" where
  "fetchUSGS net endpoint = fetchJSON net (SummaryFeed endpoint)"

text \<open>
  \<^verbatim>\<open>Promise.all\<close> over promises that have all been started: it fulfils with every value, in
  the order of the array, when all fulfil, and rejects when one rejects. Which rejection
  wins when several reject depends on timing; the model reports the first in array order.
\<close>

fun Promise_all :: "(error + 'a) list \<Rightarrow> error + 'a list" where
  "Promise_all [] = Inr []"
| "Promise_all (Inl e # ps) = Inl e"
| "Promise_all (Inr v # ps) = (case Promise_all ps of Inl e \<Rightarrow> Inl e | Inr vs \<Rightarrow> Inr (v # vs))"

section \<open>Version A: risk score of the report handler\<close>

datatype risk_level = Low | Moderate | Elevated | High

text \<open>Lines 344 to 355: the score is accumulated by five guarded additions.\<close>

definition riskScore :: "int \<Rightarrow> int \<Rightarrow> int \<Rightarrow> real \<Rightarrow> int" where
  "riskScore c50 c250 c500 maxNearby =
     (let s0 = 0;
          s1 = (if c50 > 0 then s0 + c50 * 2 else s0);
          s2 = (if c250 > 10 then s1 + 10 else s1);
          s3 = (if maxNearby \<ge> 4 then s2 + 15 else s2);
          s4 = (if maxNearby \<ge> 5 then s3 + 25 else s3);
          s5 = (if c500 > 5 then s4 + 5 else s4)
      in s5)"

definition riskLevel :: "int \<Rightarrow> risk_level" where
  "riskLevel score =
     (if score \<ge> 50 then High
      else if score \<ge> 25 then Elevated
      else if score \<ge> 10 then Moderate
      else Low)"

section \<open>Version B: feed selection of the nearby handler\<close>

text \<open>
  The three magnitude tiers of the daily summary feeds (the values of the \<^verbatim>\<open>magnitude\<close>
  handler's \<^verbatim>\<open>minMagnitude\<close> enum), the floor each one names, and the file of the daily feed.
\<close>

datatype tier = T10 | T25 | T45

fun tier_floor :: "tier \<Rightarrow> real" where
  "tier_floor T10 = 1"
| "tier_floor T25 = 5 / 2"
| "tier_floor T45 = 9 / 2"

fun day_feed :: "tier \<Rightarrow> string" where
  "day_feed T10 = ''1.0_day.geojson''"
| "day_feed T25 = ''2.5_day.geojson''"
| "day_feed T45 = ''4.5_day.geojson''"

definition nearby_endpoint :: "real \<Rightarrow> string" where
  "nearby_endpoint minMagnitude =
     (if minMagnitude \<ge> 9 / 2 then ''4.5_day.geojson''
      else if minMagnitude \<ge> 5 / 2 then ''2.5_day.geojson''
      else ''1.0_day.geojson'')"

section \<open>Version B: regional filter of the report handler\<close>

datatype region_name = Global | Pacific | Americas | Asia | Europe

record bounds =
  latMin :: real
  latMax :: real
  lonMin :: real
  lonMax :: real

fun regionBounds :: "region_name \<Rightarrow> bounds" where
  "regionBounds Global = \<lparr>latMin = -90, latMax = 90, lonMin = -180, lonMax = 180\<rparr>"
| "regionBounds Pacific = \<lparr>latMin = -60, latMax = 60, lonMin = 100, lonMax = -100\<rparr>"
| "regionBounds Americas = \<lparr>latMin = -60, latMax = 70, lonMin = -170, lonMax = -30\<rparr>"
| "regionBounds Asia = \<lparr>latMin = -10, latMax = 60, lonMin = 60, lonMax = 150\<rparr>"
| "regionBounds Europe = \<lparr>latMin = 35, latMax = 72, lonMin = -25, lonMax = 45\<rparr>"

definition filterByRegion :: "region_name \<Rightarrow> feature list \<Rightarrow> feature list" where
  "filterByRegion region fs =
     (let bounds = regionBounds region in
      if region = Global then fs
      else filter (\<lambda>f.
        if region = Pacific then
          lat f \<ge> latMin bounds \<and> lat f \<le> latMax bounds \<and>
          (lon f \<ge> lonMin bounds \<or> lon f \<le> lonMax bounds)
        else
          lat f \<ge> latMin bounds \<and> lat f \<le> latMax bounds \<and>
          lon f \<ge> lonMin bounds \<and> lon f \<le> lonMax bounds) fs)"

section \<open>Version A: formatQuake, top, compare, report, overview, search\<close>

text \<open>
  The record \<^verbatim>\<open>formatQuake\<close> builds, with \<^verbatim>\<open>coordinates\<close> flattened. The two times are
  printed by \<^verbatim>\<open>toISOString\<close> in the code; the model keeps the epoch milliseconds.
\<close>

record quake =
  qid :: string
  magnitude :: "real option"
  magnitudeType :: "string option"
  place :: "string option"
  time :: int
  updated :: int
  longitude :: real
  latitude :: real
  depth :: real
  significance :: "int option"
  felt :: "int option"
  alert :: "string option"
  tsunami :: bool
  url :: "string option"

definition formatQuake :: "feature \<Rightarrow> quake" where
  "formatQuake f =
     \<lparr>qid = fid f, magnitude = mag f, magnitudeType = magType f, place = p_place f,
      time = p_time f, updated = p_updated f,
      longitude = lon f, latitude = lat f, depth = depth_km f,
      significance = sig f, felt = p_felt f, alert = p_alert f,
      tsunami = (p_tsunami f = Some 1), url = p_url f\<rparr>"

text \<open>
  \<^verbatim>\<open>xs.slice(0, end)\<close>: \<open>end\<close> is truncated towards zero, and a negative \<open>end\<close> counts from the
  end of the array.
\<close>

definition slice0 :: "real \<Rightarrow> 'a list \<Rightarrow> 'a list" where
  "slice0 end xs =
     (let e = (if end \<ge> 0 then \<lfloor>end\<rfloor> else \<lceil>end\<rceil>)
      in if e < 0 then take (nat (int (length xs) + e)) xs else take (nat e) xs)"

text \<open>
  \<^verbatim>\<open>fs.reduce((max, f) => f.properties.mag > max.properties.mag ? f : max, fs[0])\<close>, used by
  overview and compare.
\<close>

definition largest :: "feature \<Rightarrow> feature list \<Rightarrow> feature" where
  "largest f0 fs = fold (\<lambda>f mx. if ToNumber (mag f) > ToNumber (mag mx) then f else mx) fs f0"

text \<open>
  The clock: today's date and the date a number of days ago, each as the
  \<^verbatim>\<open>YYYY-MM-DD\<close> prefix of \<^verbatim>\<open>toISOString()\<close>. Date arithmetic is not modelled.
\<close>

record clock =
  today :: string
  days_ago :: "real \<Rightarrow> string"

subsection \<open>top\<close>

datatype period = Day | Week | Month

datatype rank_by = ByMagnitude | BySignificance

record top_input =
  t_period :: period
  t_rankBy :: rank_by
  t_minMagnitude :: real
  t_limit :: real

fun feedMap :: "period \<Rightarrow> string" where
  "feedMap Day = ''all_day.geojson''"
| "feedMap Week = ''all_week.geojson''"
| "feedMap Month = ''all_month.geojson''"

record ranked_quake = quake +
  rank :: nat

text \<open>The callback of the last \<^verbatim>\<open>map\<close>: the formatted quake with its position plus one.\<close>

definition with_ranks :: "feature list \<Rightarrow> ranked_quake list" where
  "with_ranks fs = map (\<lambda>(i, f). quake.extend (formatQuake f) \<lparr>rank = i + 1\<rparr>) (enumerate 0 fs)"

record top_output =
  to_period :: period
  to_rankBy :: rank_by
  to_minMagnitude :: real
  totalFiltered :: nat
  topEarthquakes :: "ranked_quake list"

definition top_handler :: "upstream \<Rightarrow> top_input \<Rightarrow> request list \<times> (error + top_output)" where
  "top_handler net inp =
     (let url = SummaryFeed (feedMap (t_period inp)) in
      ([url],
       case fetchJSON net url of
         Inl e \<Rightarrow> Inl e
       | Inr data \<Rightarrow>
           let filtered = filter (\<lambda>f. ToNumber (mag f) \<ge> t_minMagnitude inp) (features data);
               sorted =
                 (if t_rankBy inp = ByMagnitude
                  then Array_sort (\<lambda>a b. ToNumber (mag b) - ToNumber (mag a)) filtered
                  else Array_sort (\<lambda>a b. real_of_int (ToNumber (sig b) - ToNumber (sig a))) filtered);
               topQuakes = slice0 (t_limit inp) sorted
           in Inr \<lparr>to_period = t_period inp, to_rankBy = t_rankBy inp,
                   to_minMagnitude = t_minMagnitude inp,
                   totalFiltered = length filtered,
                   topEarthquakes = with_ranks topQuakes\<rparr>))"

text \<open>
  For the statements about the order of the result: the number the comparator reads from
  a record for a ranking metric, and the features that pass the magnitude filter in the
  order of the library's stable sort by that number, largest first.
\<close>

definition rankField :: "rank_by \<Rightarrow> 'a quake_scheme \<Rightarrow> real" where
  "rankField rb q =
     (case rb of ByMagnitude \<Rightarrow> ToNumber (magnitude q)
               | BySignificance \<Rightarrow> real_of_int (ToNumber (significance q)))"

definition top_sorted :: "top_input \<Rightarrow> geojson \<Rightarrow> feature list" where
  "top_sorted inp data =
     sort_key (\<lambda>f. - rankField (t_rankBy inp) (formatQuake f))
       (filter (\<lambda>f. ToNumber (mag f) \<ge> t_minMagnitude inp) (features data))"

subsection \<open>compare\<close>

record region =
  r_name :: string
  r_latitude :: real
  r_longitude :: real
  r_radiusKm :: real

record compare_input =
  c_regions :: "region list"
  c_minMagnitude :: real

record region_stats =
  totalQuakes :: int
  averageMagnitude :: real
  maxMagnitude :: real
  quakesAbove4 :: nat
  quakesAbove5 :: nat

record region_result =
  rr_region :: string
  rr_latitude :: real
  rr_longitude :: real
  rr_radiusKm :: real
  stats :: region_stats
  topQuake :: "quake option"

record compare_output =
  periodDays :: nat
  co_minMagnitude :: real
  comparison :: "region_result list"
  mostActive :: string
  leastActive :: string
  byTotalQuakes :: "(string \<times> int) list"

definition compare_url :: "clock \<Rightarrow> real \<Rightarrow> region \<Rightarrow> request" where
  "compare_url clk minMagnitude r =
     EventQuery \<lparr>starttime = days_ago clk 7, endtime = Some (today clk),
                 q_latitude = r_latitude r, q_longitude = r_longitude r,
                 maxradiuskm = r_radiusKm r, minmagnitude = minMagnitude,
                 maxmagnitude = None, q_limit = None, orderby = None\<rparr>"

definition region_summary :: "region \<Rightarrow> geojson \<Rightarrow> region_result" where
  "region_summary r data =
     (let magnitudes = map mag (features data);
          avgMag = (if length magnitudes > 0
                    then foldl (\<lambda>a b. a + ToNumber b) 0 magnitudes / real (length magnitudes)
                    else 0);
          maxMag = (if length magnitudes > 0 then Math_max (map ToNumber magnitudes) else 0)
      in \<lparr>rr_region = r_name r, rr_latitude = r_latitude r, rr_longitude = r_longitude r,
          rr_radiusKm = r_radiusKm r,
          stats = \<lparr>totalQuakes = count data,
                   averageMagnitude = toFixed2 avgMag,
                   maxMagnitude = maxMag,
                   quakesAbove4 = length (filter (\<lambda>m. ToNumber m \<ge> 4) magnitudes),
                   quakesAbove5 = length (filter (\<lambda>m. ToNumber m \<ge> 5) magnitudes)\<rparr>,
          topQuake = (case features data of
                        [] \<Rightarrow> None
                      | f0 # _ \<Rightarrow> Some (formatQuake (largest f0 (features data))))\<rparr>)"

definition compare_region :: "clock \<Rightarrow> upstream \<Rightarrow> real \<Rightarrow> region \<Rightarrow> error + region_result" where
  "compare_region clk net minMagnitude r =
     (case fetchJSON net (compare_url clk minMagnitude r) of
        Inl e \<Rightarrow> Inl e
      | Inr data \<Rightarrow> Inr (region_summary r data))"

text \<open>
  Every region's request is issued before the first \<^verbatim>\<open>await\<close> yields, so the calls made are
  the requests of all regions, whatever their outcome.
\<close>

definition compare_handler ::
  "clock \<Rightarrow> upstream \<Rightarrow> compare_input \<Rightarrow> request list \<times> (error + compare_output)" where
  "compare_handler clk net inp =
     (map (compare_url clk (c_minMagnitude inp)) (c_regions inp),
      case Promise_all (map (compare_region clk net (c_minMagnitude inp)) (c_regions inp)) of
        Inl e \<Rightarrow> Inl e
      | Inr results \<Rightarrow>
          let ranked = Array_sort
                (\<lambda>a b. real_of_int (totalQuakes (stats b) - totalQuakes (stats a))) results
          in if ranked = [] then Inl TypeError
             else Inr \<lparr>periodDays = 7, co_minMagnitude = c_minMagnitude inp,
                       comparison = results,
                       mostActive = rr_region (ranked ! 0),
                       leastActive = rr_region (ranked ! (length ranked - 1)),
                       byTotalQuakes = map (\<lambda>r. (rr_region r, totalQuakes (stats r))) ranked\<rparr>)"

text \<open>
  For the statements about the ranking: the results in the order of the library's stable
  sort by \<open>totalQuakes\<close>, largest first.
\<close>

definition by_activity :: "region_result list \<Rightarrow> region_result list" where
  "by_activity results = sort_key (\<lambda>s. - totalQuakes (stats s)) results"

subsection \<open>report\<close>

text \<open>
  The location name and the \<^verbatim>\<open>factors\<close> strings of the report print numbers into text and
  are left out of the output record; every other field is kept.
\<close>

record report_input =
  rp_latitude :: real
  rp_longitude :: real

record report_output =
  level :: risk_level
  score :: int
  w50_count :: int
  w50_maxMagnitude :: real
  w50_avgMagnitude :: real
  w50_quakes :: "quake list"
  w250_count :: int
  w250_quakes :: "quake list"
  w500_count :: int
  w500_quakes :: "quake list"
  significantQuakesThisWeek :: int
  nearestSignificant :: "quake option"

definition report_urls :: "clock \<Rightarrow> report_input \<Rightarrow> request list" where
  "report_urls clk inp =
     [EventQuery \<lparr>starttime = days_ago clk 30, endtime = None,
                  q_latitude = rp_latitude inp, q_longitude = rp_longitude inp,
                  maxradiuskm = 50, minmagnitude = 1,
                  maxmagnitude = None, q_limit = None, orderby = None\<rparr>,
      EventQuery \<lparr>starttime = days_ago clk 30, endtime = None,
                  q_latitude = rp_latitude inp, q_longitude = rp_longitude inp,
                  maxradiuskm = 250, minmagnitude = 5 / 2,
                  maxmagnitude = None, q_limit = None, orderby = None\<rparr>,
      EventQuery \<lparr>starttime = days_ago clk 7, endtime = None,
                  q_latitude = rp_latitude inp, q_longitude = rp_longitude inp,
                  maxradiuskm = 500, minmagnitude = 4,
                  maxmagnitude = None, q_limit = None, orderby = None\<rparr>,
      SummaryFeed ''significant_week.geojson'']"

definition report_body :: "geojson \<Rightarrow> geojson \<Rightarrow> geojson \<Rightarrow> geojson \<Rightarrow> report_output" where
  "report_body nearby50km nearby250km nearby500km significant =
     (let nearbyMags = map mag (features nearby50km);
          maxNearby = (if length nearbyMags > 0 then Math_max (map ToNumber nearbyMags) else 0);
          avgNearby = (if length nearbyMags > 0
                       then foldl (\<lambda>a b. a + ToNumber b) 0 nearbyMags / real (length nearbyMags)
                       else 0);
          total = riskScore (count nearby50km) (count nearby250km) (count nearby500km) maxNearby
      in \<lparr>level = riskLevel total, score = total,
          w50_count = count nearby50km, w50_maxMagnitude = maxNearby,
          w50_avgMagnitude = toFixed2 avgNearby,
          w50_quakes = map formatQuake (slice0 5 (features nearby50km)),
          w250_count = count nearby250km,
          w250_quakes = map formatQuake (slice0 5 (features nearby250km)),
          w500_count = count nearby500km,
          w500_quakes = map formatQuake (slice0 5 (features nearby500km)),
          significantQuakesThisWeek = count significant,
          nearestSignificant = (case features significant of
                                  [] \<Rightarrow> None
                                | f0 # _ \<Rightarrow> Some (formatQuake f0))\<rparr>)"

definition report_handler ::
  "clock \<Rightarrow> upstream \<Rightarrow> report_input \<Rightarrow> request list \<times> (error + report_output)" where
  "report_handler clk net inp =
     (report_urls clk inp,
      case Promise_all (map (fetchJSON net) (report_urls clk inp)) of
        Inl e \<Rightarrow> Inl e
      | Inr [nearby50km, nearby250km, nearby500km, significant] \<Rightarrow>
          Inr (report_body nearby50km nearby250km nearby500km significant)
      | Inr _ \<Rightarrow> Inl TypeError)"

subsection \<open>overview\<close>

record overview_output =
  ov_significantQuakesThisWeek :: int
  magnitude45PlusToday :: int
  largestThisWeek :: "quake option"
  recentSignificant :: "quake list"

definition overview_urls :: "request list" where
  "overview_urls = [SummaryFeed ''significant_week.geojson'', SummaryFeed ''4.5_day.geojson'']"

definition overview_handler :: "upstream \<Rightarrow> request list \<times> (error + overview_output)" where
  "overview_handler net =
     (overview_urls,
      case Promise_all (map (fetchJSON net) overview_urls) of
        Inl e \<Rightarrow> Inl e
      | Inr [significant, recent] \<Rightarrow>
          Inr \<lparr>ov_significantQuakesThisWeek = count significant,
               magnitude45PlusToday = count recent,
               largestThisWeek = (case features significant of
                                    [] \<Rightarrow> None
                                  | f0 # _ \<Rightarrow> Some (formatQuake (largest f0 (features significant)))),
               recentSignificant = map formatQuake (slice0 3 (features significant))\<rparr>
      | Inr _ \<Rightarrow> Inl TypeError)"

subsection \<open>search\<close>

record search_input =
  s_latitude :: real
  s_longitude :: real
  s_radiusKm :: real
  s_minMagnitude :: real
  s_maxMagnitude :: "real option"
  s_daysBack :: real
  s_limit :: real

record search_output =
  query :: search_input
  totalFound :: int
  earthquakes :: "quake list"

definition search_url :: "clock \<Rightarrow> search_input \<Rightarrow> request" where
  "search_url clk inp =
     EventQuery \<lparr>starttime = days_ago clk (s_daysBack inp), endtime = Some (today clk),
                 q_latitude = s_latitude inp, q_longitude = s_longitude inp,
                 maxradiuskm = s_radiusKm inp, minmagnitude = s_minMagnitude inp,
                 maxmagnitude = s_maxMagnitude inp, q_limit = Some (s_limit inp),
                 orderby = Some ''time''\<rparr>"

definition search_handler ::
  "clock \<Rightarrow> upstream \<Rightarrow> search_input \<Rightarrow> request list \<times> (error + search_output)" where
  "search_handler clk net inp =
     ([search_url clk inp],
      case fetchJSON net (search_url clk inp) of
        Inl e \<Rightarrow> Inl e
      | Inr data \<Rightarrow>
          Inr \<lparr>query = inp, totalFound = count data,
               earthquakes = map formatQuake (features data)\<rparr>)"

subsection \<open>Input schemas of search and compare\<close>

text \<open>
  The request body before validation: an optional field of the schema is an \<open>option\<close>.
  The schema is the \<^verbatim>\<open>z.object\<close> given to \<^verbatim>\<open>addEntrypoint\<close>; parsing checks every bound and
  fills in the defaults.
\<close>

definition in_range :: "real \<Rightarrow> real \<Rightarrow> real \<Rightarrow> bool" where
  "in_range lo hi x = (lo \<le> x \<and> x \<le> hi)"

definition opt_in_range :: "real \<Rightarrow> real \<Rightarrow> real option \<Rightarrow> bool" where
  "opt_in_range lo hi v = (case v of None \<Rightarrow> True | Some x \<Rightarrow> in_range lo hi x)"

definition with_default :: "'a \<Rightarrow> 'a option \<Rightarrow> 'a" where
  "with_default d v = (case v of None \<Rightarrow> d | Some x \<Rightarrow> x)"

record search_body =
  sb_latitude :: real
  sb_longitude :: real
  sb_radiusKm :: "real option"
  sb_minMagnitude :: "real option"
  sb_maxMagnitude :: "real option"
  sb_daysBack :: "real option"
  sb_limit :: "real option"

definition parse_search :: "search_body \<Rightarrow> search_input option" where
  "parse_search b =
     (if in_range (-90) 90 (sb_latitude b) \<and> in_range (-180) 180 (sb_longitude b)
         \<and> opt_in_range 1 20000 (sb_radiusKm b) \<and> opt_in_range 0 10 (sb_minMagnitude b)
         \<and> opt_in_range 0 10 (sb_maxMagnitude b) \<and> opt_in_range 1 30 (sb_daysBack b)
         \<and> opt_in_range 1 100 (sb_limit b)
      then Some \<lparr>s_latitude = sb_latitude b, s_longitude = sb_longitude b,
                 s_radiusKm = with_default 500 (sb_radiusKm b),
                 s_minMagnitude = with_default (5 / 2) (sb_minMagnitude b),
                 s_maxMagnitude = sb_maxMagnitude b,
                 s_daysBack = with_default 7 (sb_daysBack b),
                 s_limit = with_default 20 (sb_limit b)\<rparr>
      else None)"

record region_body =
  rb_name :: string
  rb_latitude :: real
  rb_longitude :: real
  rb_radiusKm :: "real option"

record compare_body =
  cb_regions :: "region_body list"
  cb_minMagnitude :: "real option"

definition region_valid :: "region_body \<Rightarrow> bool" where
  "region_valid r =
     (in_range (-90) 90 (rb_latitude r) \<and> in_range (-180) 180 (rb_longitude r)
      \<and> opt_in_range 10 5000 (rb_radiusKm r))"

definition parse_region :: "region_body \<Rightarrow> region" where
  "parse_region r =
     \<lparr>r_name = rb_name r, r_latitude = rb_latitude r, r_longitude = rb_longitude r,
      r_radiusKm = with_default 500 (rb_radiusKm r)\<rparr>"

definition parse_compare :: "compare_body \<Rightarrow> compare_input option" where
  "parse_compare b =
     (if list_all region_valid (cb_regions b)
         \<and> 2 \<le> length (cb_regions b) \<and> length (cb_regions b) \<le> 5
         \<and> opt_in_range 0 10 (cb_minMagnitude b)
      then Some \<lparr>c_regions = map parse_region (cb_regions b),
                 c_minMagnitude = with_default (5 / 2) (cb_minMagnitude b)\<rparr>
      else None)"

text \<open>
  Modelled from the spec: the dispatch of the agent framework (the packages
  \<^verbatim>\<open>@lucid-agents/core\<close> and \<^verbatim>\<open>@lucid-agents/hono\<close>, which are not part of the repository's
  source). Input outside the documented constraints fails with a validation error and
  never reaches the network; valid input is handed to the handler.
\<close>

definition search_entrypoint ::
  "clock \<Rightarrow> upstream \<Rightarrow> search_body \<Rightarrow> request list \<times> (error + search_output)" where
  "search_entrypoint clk net body =
     (case parse_search body of
        None \<Rightarrow> ([], Inl ValidationError)
      | Some inp \<Rightarrow> search_handler clk net inp)"

text \<open>
  Modelled from the spec: the same dispatch, for compare.
\<close>

definition compare_entrypoint ::
  "clock \<Rightarrow> upstream \<Rightarrow> compare_body \<Rightarrow> request list \<times> (error + compare_output)" where
  "compare_entrypoint clk net body =
     (case parse_compare body of
        None \<Rightarrow> ([], Inl ValidationError)
      | Some inp \<Rightarrow> compare_handler clk net inp)"

section \<open>Version B: haversineDistance, parseQuakes, nearby, overview, regional report\<close>

text \<open>
  The Haversine formula with the Earth radius 6371 km, on the reals. Over the reals \<open>a\<close> and
  \<open>1 - a\<close> are never negative (lemma \<open>haversine_a_range\<close>). The code computes with doubles:
  for two nearly antipodal points, such as \<open>(8, -180)\<close> and \<open>(-8, 0)\<close>, rounding can make \<open>a\<close>
  exceed 1; then \<^verbatim>\<open>Math.sqrt(1 - a)\<close> is NaN and the function returns NaN, where this
  definition gives a number close to \<open>6371 * pi\<close>. The model has no such path, so
  statements about the values of the distance itself hold of the formula only; the
  statements about the nearby handler below use the distance through the handler's
  comparison \<^verbatim>\<open>distance <= radiusKm\<close> and through \<^verbatim>\<open>Math.round\<close>.
\<close>

definition haversineDistance :: "real \<Rightarrow> real \<Rightarrow> real \<Rightarrow> real \<Rightarrow> real" where
  "haversineDistance lat1 lon1 lat2 lon2 =
     (let R = 6371;
          dLat = (lat2 - lat1) * pi / 180;
          dLon = (lon2 - lon1) * pi / 180;
          a = sin (dLat / 2) * sin (dLat / 2) +
              cos (lat1 * pi / 180) * cos (lat2 * pi / 180) *
              sin (dLon / 2) * sin (dLon / 2);
          c = 2 * Math_atan2 (sqrt a) (sqrt (1 - a))
      in R * c)"

text \<open>One element of the array \<^verbatim>\<open>parseQuakes\<close> builds.\<close>

record parsed_quake =
  pq_id :: string
  pq_magnitude :: "real option"
  pq_place :: "string option"
  pq_time :: int
  pq_depth :: real
  pq_latitude :: real
  pq_longitude :: real
  pq_tsunami :: bool
  pq_alert :: "string option"
  pq_felt :: "int option"
  pq_significance :: "int option"
  pq_url :: "string option"

definition parseQuake :: "feature \<Rightarrow> parsed_quake" where
  "parseQuake f =
     \<lparr>pq_id = fid f, pq_magnitude = mag f, pq_place = p_place f, pq_time = p_time f,
      pq_depth = depth_km f, pq_latitude = lat f, pq_longitude = lon f,
      pq_tsunami = (p_tsunami f = Some 1), pq_alert = p_alert f, pq_felt = p_felt f,
      pq_significance = sig f, pq_url = p_url f\<rparr>"

definition parseQuakes :: "feature list \<Rightarrow> parsed_quake list" where
  "parseQuakes fs = map parseQuake fs"

subsection \<open>nearby\<close>

record nearby_input =
  n_latitude :: real
  n_longitude :: real
  n_radiusKm :: real
  n_minMagnitude :: real

record nearby_quake = parsed_quake +
  distanceKm :: int

record nearby_output =
  searchCenter :: "real \<times> real"
  no_radiusKm :: real
  no_minMagnitude :: real
  found :: nat
  nearby_earthquakes :: "nearby_quake list"

text \<open>The two callbacks of the handler and the comparator of its sort.\<close>

definition within_radius :: "nearby_input \<Rightarrow> feature \<Rightarrow> bool" where
  "within_radius inp f =
     (let qLat = lat f; qLon = lon f;
          distance = haversineDistance (n_latitude inp) (n_longitude inp) qLat qLon
      in distance \<le> n_radiusKm inp)"

definition with_distance :: "nearby_input \<Rightarrow> feature \<Rightarrow> nearby_quake" where
  "with_distance inp f =
     (let qLat = lat f; qLon = lon f
      in parsed_quake.extend (parseQuakes [f] ! 0)
           \<lparr>distanceKm = Math_round (haversineDistance (n_latitude inp) (n_longitude inp) qLat qLon)\<rparr>)"

definition nearby_handler :: "upstream \<Rightarrow> nearby_input \<Rightarrow> request list \<times> (error + nearby_output)" where
  "nearby_handler net inp =
     (let endpoint = nearby_endpoint (n_minMagnitude inp) in
      ([SummaryFeed endpoint],
       case fetchUSGS net endpoint of
         Inl e \<Rightarrow> Inl e
       | Inr data \<Rightarrow>
           let nearbyQuakes =
                 Array_sort (\<lambda>a b. real_of_int (distanceKm a - distanceKm b))
                   (map (with_distance inp) (filter (within_radius inp) (features data)))
           in Inr \<lparr>searchCenter = (n_latitude inp, n_longitude inp),
                   no_radiusKm = n_radiusKm inp, no_minMagnitude = n_minMagnitude inp,
                   found = length nearbyQuakes,
                   nearby_earthquakes = nearbyQuakes\<rparr>))"

text \<open>
  For the statements about the order of the result: the records within the radius, with
  their distance, in the order of the library's stable sort by \<open>distanceKm\<close>.
\<close>

definition nearby_sorted :: "nearby_input \<Rightarrow> geojson \<Rightarrow> nearby_quake list" where
  "nearby_sorted inp data =
     sort_key distanceKm (map (with_distance inp) (filter (within_radius inp) (features data)))"

subsection \<open>overview\<close>

record overviewB_output =
  pastHour_count :: int
  significant24h_count :: int
  significantWeek_count :: int
  latestSignificant :: "(real option \<times> string option \<times> int) option"

definition overviewB_endpoints :: "string list" where
  "overviewB_endpoints = [''all_hour.geojson'', ''4.5_day.geojson'', ''significant_week.geojson'']"

definition overviewB_handler :: "upstream \<Rightarrow> request list \<times> (error + overviewB_output)" where
  "overviewB_handler net =
     (map SummaryFeed overviewB_endpoints,
      case Promise_all (map (fetchUSGS net) overviewB_endpoints) of
        Inl e \<Rightarrow> Inl e
      | Inr [hourData, dayData, weekData] \<Rightarrow>
          Inr \<lparr>pastHour_count = count hourData,
               significant24h_count = count dayData,
               significantWeek_count = count weekData,
               latestSignificant = (case features weekData of
                                      [] \<Rightarrow> None
                                    | f0 # _ \<Rightarrow> Some (mag f0, p_place f0, p_time f0))\<rparr>
      | Inr _ \<Rightarrow> Inl TypeError)"

subsection \<open>regional report\<close>

text \<open>
  The \<^verbatim>\<open>mostActiveAreas\<close> table of the regional report (a count of the last comma-separated
  part of the place names) is left out of the output record; every other field is kept.
  \<^verbatim>\<open>averageMagnitude\<close> is the string printed by \<^verbatim>\<open>toFixed(2)\<close>, kept as the number it prints.
\<close>

datatype activity = HIGH | MODERATE | LOW

record regional_output =
  ro_region :: region_name
  pastHour :: nat
  magnitude45_24h :: nat
  significantWeek :: nat
  totalMonth :: nat
  ro_averageMagnitude :: "real option"
  ro_maxMagnitude :: "real option"
  ro_recentSignificant :: "parsed_quake list"
  latestLarge :: "parsed_quake list"
  insight_activity :: activity
  insight_trend :: string

definition regional_endpoints :: "string list" where
  "regional_endpoints =
     [''all_hour.geojson'', ''4.5_day.geojson'', ''significant_week.geojson'', ''all_month.geojson'']"

definition regional_body ::
  "region_name \<Rightarrow> geojson \<Rightarrow> geojson \<Rightarrow> geojson \<Rightarrow> geojson \<Rightarrow> regional_output" where
  "regional_body region hourAll day45 weekSig monthAll =
     (let regionalHour = filterByRegion region (features hourAll);
          regional45 = filterByRegion region (features day45);
          regionalSig = filterByRegion region (features weekSig);
          regionalMonth = filterByRegion region (features monthAll);
          magnitudes = map the (filter (\<lambda>m. m \<noteq> None) (map mag regionalMonth))
      in \<lparr>ro_region = region,
          pastHour = length regionalHour,
          magnitude45_24h = length regional45,
          significantWeek = length regionalSig,
          totalMonth = length regionalMonth,
          ro_averageMagnitude =
            (if length magnitudes > 0
             then Some (toFixed2 (foldl (\<lambda>a b. a + b) 0 magnitudes / real (length magnitudes)))
             else None),
          ro_maxMagnitude = (if length magnitudes > 0 then Some (Math_max magnitudes) else None),
          ro_recentSignificant = parseQuakes (slice0 5 regionalSig),
          latestLarge = parseQuakes (slice0 5 regional45),
          insight_activity =
            (if length regionalHour > 10 then HIGH
             else if length regionalHour > 5 then MODERATE else LOW),
          insight_trend =
            (if length regionalMonth > 1000 then ''Above average seismic activity''
             else ''Normal activity levels'')\<rparr>)"

definition regional_handler ::
  "upstream \<Rightarrow> region_name \<Rightarrow> request list \<times> (error + regional_output)" where
  "regional_handler net region =
     (map SummaryFeed regional_endpoints,
      case Promise_all (map (fetchUSGS net) regional_endpoints) of
        Inl e \<Rightarrow> Inl e
      | Inr [hourAll, day45, weekSig, monthAll] \<Rightarrow>
          Inr (regional_body region hourAll day45 weekSig monthAll)
      | Inr _ \<Rightarrow> Inl TypeError)"

section \<open>Sample data\<close>

text \<open>A feature with the fields that vary between examples, and an upstream serving fixed bodies.\<close>

definition sample_feature :: "string \<Rightarrow> real option \<Rightarrow> int option \<Rightarrow> real \<Rightarrow> real \<Rightarrow> feature" where
  "sample_feature i m s lo la =
     \<lparr>fid = i, mag = m, magType = Some ''ml'', p_place = None, p_time = 0, p_updated = 0,
      sig = s, p_felt = None, p_alert = None, p_tsunami = Some 0, p_url = None,
      lon = lo, lat = la, depth_km = 10\<rparr>"

definition sample_clock :: clock where
  "sample_clock = \<lparr>today = ''2026-01-31'', days_ago = (\<lambda>d. if d = 7 then ''2026-01-24'' else ''2026-01-01'')\<rparr>"

definition sample_week :: geojson where
  "sample_week = \<lparr>count = 4, features =
     [sample_feature ''a'' (Some 5) (Some 300) 10 10, sample_feature ''b'' (Some 6) (Some 500) 20 20,
      sample_feature ''c'' (Some 5) (Some 400) 30 30, sample_feature ''d'' (Some 3) (Some 10) 40 40]\<rparr>"

definition sample_upstream :: upstream where
  "sample_upstream req =
     (if req = SummaryFeed ''all_week.geojson'' then Response 200 (Some sample_week) else Unreachable)"

definition sample_day25 :: geojson where
  "sample_day25 = \<lparr>count = 3, features =
     [sample_feature ''x'' (Some (5 / 2)) None 0 0, sample_feature ''y'' (Some 5) None 180 0,
      sample_feature ''z'' (Some 4) None 0 0]\<rparr>"

definition sample_day_upstream :: upstream where
  "sample_day_upstream req =
     (if req = SummaryFeed ''2.5_day.geojson'' then Response 200 (Some sample_day25) else Unreachable)"

definition sample_nearby_input :: nearby_input where
  "sample_nearby_input = \<lparr>n_latitude = 0, n_longitude = 0, n_radiusKm = 100, n_minMagnitude = 3\<rparr>"

definition flaky_upstream :: upstream where
  "flaky_upstream req =
     (case req of
        SummaryFeed n \<Rightarrow>
          if n = ''significant_week.geojson'' then Response 503 None
          else Response 200 (Some \<lparr>count = 0, features = []\<rparr>)
      | EventQuery q \<Rightarrow>
          if q_latitude q = 10 then Response 200 (Some \<lparr>count = 0, features = []\<rparr>)
          else Unreachable)"

definition sample_region :: "string \<Rightarrow> real \<Rightarrow> region" where
  "sample_region n la = \<lparr>r_name = n, r_latitude = la, r_longitude = 0, r_radiusKm = 500\<rparr>"

definition sample_search_body :: "real option \<Rightarrow> search_body" where
  "sample_search_body r =
     \<lparr>sb_latitude = 35, sb_longitude = 139, sb_radiusKm = r, sb_minMagnitude = None,
      sb_maxMagnitude = None, sb_daysBack = None, sb_limit = None\<rparr>"

definition sample_compare_body :: "nat \<Rightarrow> compare_body" where
  "sample_compare_body n =
     \<lparr>cb_regions = replicate n \<lparr>rb_name = ''A'', rb_latitude = 10, rb_longitude = 0, rb_radiusKm = None\<rparr>,
      cb_minMagnitude = None\<rparr>"

definition sample_regions :: "region list" where
  "sample_regions =
     [sample_region ''A'' 10, sample_region ''B'' 20, sample_region ''C'' 30, sample_region ''D'' 40]"

definition regions_upstream :: upstream where
  "regions_upstream req =
     (case req of
        SummaryFeed n \<Rightarrow> Unreachable
      | EventQuery q \<Rightarrow>
          if q_latitude q = 10 then
            Response 200 (Some \<lparr>count = 5, features =
              [sample_feature ''a1'' (Some 4) None 0 10, sample_feature ''a2'' (Some (11 / 2)) None 0 10,
               sample_feature ''a3'' (Some (11 / 2)) None 0 10, sample_feature ''a4'' (Some 3) None 0 10,
               sample_feature ''a5'' (Some (13 / 5)) None 0 10]\<rparr>)
          else if q_latitude q = 20 then
            Response 200 (Some \<lparr>count = 3, features =
              [sample_feature ''b1'' (Some 3) None 0 20, sample_feature ''b2'' (Some (7 / 2)) None 0 20,
               sample_feature ''b3'' (Some (14 / 5)) None 0 20]\<rparr>)
          else if q_latitude q = 30 then
            Response 200 (Some \<lparr>count = 3, features =
              [sample_feature ''c1'' (Some (5 / 2)) None 0 30, sample_feature ''c2'' (Some (5 / 2)) None 0 30,
               sample_feature ''c3'' (Some (5 / 2)) None 0 30]\<rparr>)
          else if q_latitude q = 40 then Response 200 (Some \<lparr>count = 0, features = []\<rparr>)
          else Unreachable)"

section \<open>Properties\<close>

subsection \<open>Risk score\<close>

text \<open>
  Claim C1. For counts that are not negative, the score of the report handler is
  \<open>2 * nearby50kmCount\<close>, plus 10 when \<open>nearby250kmCount > 10\<close>, plus 15 when the largest
  nearby magnitude is at least 4, plus 25 when it is at least 5, plus 5 when
  \<open>nearby500kmCount > 5\<close>; the level is high from 50, elevated from 25, moderate from 10 and
  low below. (Only the 50 km count needs the hypothesis.) The inputs \<open>(3, 12, 8, 5.2)\<close> give
  the score \<open>6 + 10 + 15 + 25 + 5 = 61\<close> and the level high.
\<close>

theorem risk_score_formula:
  assumes "0 \<le> c50"
  shows "riskScore c50 c250 c500 m =
           2 * c50 + (if c250 > 10 then 10 else 0) + (if m \<ge> 4 then 15 else 0)
             + (if m \<ge> 5 then 25 else 0) + (if c500 > 5 then 5 else 0)
         \<and> (riskLevel (riskScore c50 c250 c500 m) = High \<longleftrightarrow> riskScore c50 c250 c500 m \<ge> 50)
         \<and> (riskLevel (riskScore c50 c250 c500 m) = Elevated \<longleftrightarrow>
              25 \<le> riskScore c50 c250 c500 m \<and> riskScore c50 c250 c500 m < 50)
         \<and> (riskLevel (riskScore c50 c250 c500 m) = Moderate \<longleftrightarrow>
              10 \<le> riskScore c50 c250 c500 m \<and> riskScore c50 c250 c500 m < 25)
         \<and> (riskLevel (riskScore c50 c250 c500 m) = Low \<longleftrightarrow> riskScore c50 c250 c500 m < 10)
         \<and> riskScore 3 12 8 (26 / 5) = 61 \<and> riskLevel (riskScore 3 12 8 (26 / 5)) = High"
  using assms by (simp add: riskScore_def riskLevel_def Let_def)

theorem risk_score_formula_witness:
  "(0::int) \<le> 3 \<and> riskScore 3 12 8 (26 / 5) = 2 * 3 + 10 + 15 + 25 + 5
   \<and> riskLevel (riskScore 3 12 8 (26 / 5)) = High"
  using risk_score_formula [of 3 12 8 "26 / 5"] by (simp add: riskLevel_def)

text \<open>
  The score of \<open>(3, 12, 8, 5.2)\<close> is not 66: the five terms \<open>6, 10, 15, 25, 5\<close> add up to 61.
\<close>

theorem risk_score_example_counterexample:
  "riskScore 3 12 8 (26 / 5) \<noteq> 66"
  by (simp add: riskScore_def Let_def)

subsection \<open>Feed selection of nearby\<close>

text \<open>
  Claim C8. The nearby handler fetches the daily feed of the tier with the greatest
  magnitude floor that is at most \<open>minMagnitude\<close>, and the finest feed (floor 1.0) when
  \<open>minMagnitude\<close> is below every floor. The thresholds 2.5 and 2.6 select the same feed;
  2.4 and 2.5 select different feeds.
\<close>

theorem nearby_endpoint_greatest_floor_below:
  "((\<exists>t. tier_floor t \<le> m) \<longrightarrow>
      (\<exists>t. nearby_endpoint m = day_feed t \<and> tier_floor t \<le> m
           \<and> (\<forall>t'. tier_floor t' \<le> m \<longrightarrow> tier_floor t' \<le> tier_floor t)))
   \<and> ((\<forall>t. m < tier_floor t) \<longrightarrow> nearby_endpoint m = day_feed T10)
   \<and> nearby_endpoint (5 / 2) = nearby_endpoint (13 / 5)
   \<and> nearby_endpoint (12 / 5) \<noteq> nearby_endpoint (5 / 2)"
proof -
  have floors: "\<forall>t'. tier_floor t' \<le> 9 / 2"
  proof
    fix t' show "tier_floor t' \<le> 9 / 2" by (cases t') simp_all
  qed
  have low: "\<forall>t'. tier_floor t' \<le> m \<longrightarrow> m < 9 / 2 \<longrightarrow> tier_floor t' \<le> 5 / 2"
  proof
    fix t' show "tier_floor t' \<le> m \<longrightarrow> m < 9 / 2 \<longrightarrow> tier_floor t' \<le> 5 / 2"
      by (cases t') simp_all
  qed
  have lowest: "\<forall>t'. tier_floor t' \<le> m \<longrightarrow> m < 5 / 2 \<longrightarrow> tier_floor t' \<le> 1"
  proof
    fix t' show "tier_floor t' \<le> m \<longrightarrow> m < 5 / 2 \<longrightarrow> tier_floor t' \<le> 1"
      by (cases t') simp_all
  qed
  have one: "\<forall>t'. tier_floor t' \<le> m \<longrightarrow> 1 \<le> m"
  proof
    fix t' show "tier_floor t' \<le> m \<longrightarrow> 1 \<le> m" by (cases t') simp_all
  qed
  have a: "(\<exists>t. tier_floor t \<le> m) \<longrightarrow>
      (\<exists>t. nearby_endpoint m = day_feed t \<and> tier_floor t \<le> m
           \<and> (\<forall>t'. tier_floor t' \<le> m \<longrightarrow> tier_floor t' \<le> tier_floor t))"
  proof
    assume "\<exists>t. tier_floor t \<le> m"
    then have m1: "1 \<le> m" using one by blast
    consider "9 / 2 \<le> m" | "5 / 2 \<le> m" "m < 9 / 2" | "m < 5 / 2" by linarith
    then show "\<exists>t. nearby_endpoint m = day_feed t \<and> tier_floor t \<le> m
           \<and> (\<forall>t'. tier_floor t' \<le> m \<longrightarrow> tier_floor t' \<le> tier_floor t)"
    proof cases
      case 1
      then show ?thesis using floors
        by (intro exI [of _ T45]) (auto simp add: nearby_endpoint_def)
    next
      case 2
      then show ?thesis using low
        by (intro exI [of _ T25]) (auto simp add: nearby_endpoint_def)
    next
      case 3
      then show ?thesis using m1 lowest
        by (intro exI [of _ T10]) (auto simp add: nearby_endpoint_def)
    qed
  qed
  have b: "(\<forall>t. m < tier_floor t) \<longrightarrow> nearby_endpoint m = day_feed T10"
  proof
    assume "\<forall>t. m < tier_floor t"
    then have "m < tier_floor T10" by blast
    then show "nearby_endpoint m = day_feed T10"
      by (simp add: nearby_endpoint_def)
  qed
  have c: "nearby_endpoint (5 / 2) = nearby_endpoint (13 / 5)"
    by (simp add: nearby_endpoint_def)
  have d: "nearby_endpoint (12 / 5) \<noteq> nearby_endpoint (5 / 2)"
    by (simp add: nearby_endpoint_def)
  from a b c d show ?thesis by blast
qed

theorem nearby_endpoint_greatest_floor_below_witness:
  "(\<exists>t. tier_floor t \<le> 3) \<and> nearby_endpoint 3 = day_feed T25
   \<and> (\<forall>t. 1 / 2 < tier_floor t) \<and> nearby_endpoint (1 / 2) = day_feed T10"
proof -
  have ex: "\<exists>t. tier_floor t \<le> 3"
    by (rule exI [of _ T10]) simp
  have all: "\<forall>t. 1 / 2 < tier_floor t"
  proof
    fix t show "1 / 2 < tier_floor t" by (cases t) simp_all
  qed
  have "nearby_endpoint (1 / 2) = day_feed T10"
    using nearby_endpoint_greatest_floor_below [of "1 / 2"] all by blast
  moreover have "nearby_endpoint 3 = day_feed T25"
    by (simp add: nearby_endpoint_def)
  ultimately show ?thesis using ex all by blast
qed

text \<open>
  The claim as the specification words it fails: 2.5 and 2.6 select the same feed, and for
  \<open>minMagnitude = 3\<close> the selected feed has the floor 2.5, which is not at least 3, although
  a feed with a floor of at least 3 exists.
\<close>

theorem nearby_endpoint_counterexample:
  "nearby_endpoint (5 / 2) = nearby_endpoint (13 / 5)
   \<and> nearby_endpoint 3 = day_feed T25 \<and> \<not> tier_floor T25 \<ge> 3 \<and> tier_floor T45 \<ge> 3"
  by (simp add: nearby_endpoint_def)

subsection \<open>Regional filter\<close>

text \<open>
  Claim C7. For a region whose box crosses the antimeridian (\<open>lonMin > lonMax\<close>), a feature
  is kept when its latitude is within \<open>[latMin, latMax]\<close> and its longitude is at least
  \<open>lonMin\<close> or at most \<open>lonMax\<close>. The pacific box has \<open>lonMin = 100\<close> and \<open>lonMax = -100\<close>: at a
  latitude within \<open>[-60, 60]\<close> it accepts the longitudes 170 and -170, and it rejects the
  longitude 0 at every latitude.
\<close>

theorem filterByRegion_antimeridian:
  "(lonMin (regionBounds r) > lonMax (regionBounds r) \<longrightarrow>
      filterByRegion r fs =
        filter (\<lambda>f. latMin (regionBounds r) \<le> lat f \<and> lat f \<le> latMax (regionBounds r)
                    \<and> (lon f \<ge> lonMin (regionBounds r) \<or> lon f \<le> lonMax (regionBounds r))) fs)
   \<and> lonMin (regionBounds Pacific) = 100 \<and> lonMax (regionBounds Pacific) = -100
   \<and> ((lon f = 170 \<or> lon f = -170) \<and> -60 \<le> lat f \<and> lat f \<le> 60 \<longrightarrow>
        filterByRegion Pacific [f] = [f])
   \<and> (lon f = 0 \<longrightarrow> filterByRegion Pacific [f] = [])"
proof -
  have "filterByRegion r fs =
        filter (\<lambda>f. latMin (regionBounds r) \<le> lat f \<and> lat f \<le> latMax (regionBounds r)
                    \<and> (lon f \<ge> lonMin (regionBounds r) \<or> lon f \<le> lonMax (regionBounds r))) fs"
    if "lonMin (regionBounds r) > lonMax (regionBounds r)"
    using that by (cases r) (simp_all add: filterByRegion_def)
  moreover have "filterByRegion Pacific [f] = [f]"
    if "(lon f = 170 \<or> lon f = -170) \<and> -60 \<le> lat f \<and> lat f \<le> 60"
    using that by (auto simp add: filterByRegion_def)
  moreover have "filterByRegion Pacific [f] = []" if "lon f = 0"
    using that by (simp add: filterByRegion_def)
  ultimately show ?thesis by simp
qed

theorem filterByRegion_antimeridian_witness:
  "lonMin (regionBounds Pacific) > lonMax (regionBounds Pacific)
   \<and> filterByRegion Pacific
        [sample_feature ''a'' None None 170 10, sample_feature ''b'' None None 0 10,
         sample_feature ''c'' None None (-170) (-20), sample_feature ''d'' None None 120 75]
       = [sample_feature ''a'' None None 170 10, sample_feature ''c'' None None (-170) (-20)]
   \<and> filterByRegion Pacific [sample_feature ''a'' None None 170 10]
       = [sample_feature ''a'' None None 170 10]
   \<and> filterByRegion Pacific [sample_feature ''b'' None None 0 10] = []"
proof -
  have cross: "lonMin (regionBounds Pacific) > lonMax (regionBounds Pacific)"
    by simp
  have "filterByRegion Pacific
        [sample_feature ''a'' None None 170 10, sample_feature ''b'' None None 0 10,
         sample_feature ''c'' None None (-170) (-20), sample_feature ''d'' None None 120 75]
       = [sample_feature ''a'' None None 170 10, sample_feature ''c'' None None (-170) (-20)]"
    using filterByRegion_antimeridian
      [of Pacific "[sample_feature ''a'' None None 170 10, sample_feature ''b'' None None 0 10,
         sample_feature ''c'' None None (-170) (-20), sample_feature ''d'' None None 120 75]"
         "sample_feature ''a'' None None 170 10"] cross
    by (simp add: sample_feature_def)
  moreover have "filterByRegion Pacific [sample_feature ''a'' None None 170 10]
       = [sample_feature ''a'' None None 170 10]"
    using filterByRegion_antimeridian [of Pacific "[]" "sample_feature ''a'' None None 170 10"]
    by (simp add: sample_feature_def)
  moreover have "filterByRegion Pacific [sample_feature ''b'' None None 0 10] = []"
    using filterByRegion_antimeridian [of Pacific "[]" "sample_feature ''b'' None None 0 10"]
    by (simp add: sample_feature_def)
  ultimately show ?thesis using cross by blast
qed

subsection \<open>Haversine distance\<close>

text \<open>
  Over the reals the number under the two square roots is in \<open>[0, 1]\<close> for all coordinates,
  so in the model neither root is taken of a negative number. This is a fact about the
  formula, not about the doubles the code computes with: see the remark at the definition
  of \<open>haversineDistance\<close>.
\<close>

lemma abs_prod_le_half_squares: "\<bar>a * b\<bar> \<le> (a\<^sup>2 + b\<^sup>2) / 2" for a b :: real
proof -
  have "0 \<le> (\<bar>a\<bar> - \<bar>b\<bar>)\<^sup>2" by simp
  also have "\<dots> = a\<^sup>2 + b\<^sup>2 - 2 * \<bar>a * b\<bar>"
    by (simp add: power2_diff abs_mult)
  finally show ?thesis by simp
qed

lemma haversine_radicand:
  fixes u v y :: real
  defines "a \<equiv> sin ((v - u) / 2) * sin ((v - u) / 2) + cos u * cos v * sin y * sin y"
  shows "0 \<le> a \<and> a \<le> 1"
proof -
  have half: "sin (x / 2) * sin (x / 2) = (1 - cos x) / 2" for x :: real
    using cos_double_sin [of "x / 2"] by (simp add: power2_eq_square)
  have h1: "sin ((v - u) / 2) * sin ((v - u) / 2) = (1 - cos (v - u)) / 2"
    by (rule half)
  have h2: "sin y * sin y = (1 - cos (2 * y)) / 2"
    using cos_double_sin [of y] by (simp add: power2_eq_square)
  define t where "t = cos (2 * y)"
  have t: "- 1 \<le> t" "t \<le> 1" by (simp_all add: t_def)
  define P where "P = sin u * sin v"
  define Q where "Q = cos u * cos v"
  have cd: "cos (v - u) = Q + P"
    by (simp add: cos_diff P_def Q_def mult.commute)
  have "a = (1 - cos (v - u)) / 2 + cos u * cos v * (sin y * sin y)"
    unfolding a_def h1 by (simp add: mult.assoc)
  then have "a = (1 - (Q + P)) / 2 + Q * ((1 - t) / 2)"
    unfolding h2 cd t_def Q_def by simp
  then have "1 - 2 * a = P + t * Q"
    by (simp add: field_simps)
  then have two: "1 - 2 * a = sin u * sin v + t * (cos u * cos v)"
    by (simp add: P_def Q_def)
  have s: "\<bar>sin u * sin v\<bar> \<le> ((sin u)\<^sup>2 + (sin v)\<^sup>2) / 2"
    by (rule abs_prod_le_half_squares)
  have c: "\<bar>cos u * cos v\<bar> \<le> ((cos u)\<^sup>2 + (cos v)\<^sup>2) / 2"
    by (rule abs_prod_le_half_squares)
  have "((sin u)\<^sup>2 + (sin v)\<^sup>2) / 2 + ((cos u)\<^sup>2 + (cos v)\<^sup>2) / 2 = 1"
  proof -
    have "(sin u)\<^sup>2 + (cos u)\<^sup>2 = 1" "(sin v)\<^sup>2 + (cos v)\<^sup>2 = 1"
      by (rule sin_cos_squared_add)+
    then show ?thesis by argo
  qed
  with s c have sum: "\<bar>sin u * sin v\<bar> + \<bar>cos u * cos v\<bar> \<le> 1" by linarith
  have "\<bar>t * (cos u * cos v)\<bar> \<le> \<bar>cos u * cos v\<bar>"
  proof -
    have "\<bar>t\<bar> \<le> 1" using t by (simp add: abs_le_iff)
    then have "\<bar>t\<bar> * \<bar>cos u * cos v\<bar> \<le> 1 * \<bar>cos u * cos v\<bar>"
      by (intro mult_right_mono) simp_all
    then show ?thesis by (simp add: abs_mult)
  qed
  then have "\<bar>sin u * sin v + t * (cos u * cos v)\<bar> \<le> 1"
    using sum by linarith
  then have "\<bar>1 - 2 * a\<bar> \<le> 1" using two by simp
  then show ?thesis by (simp add: abs_le_iff)
qed


lemma haversine_a_range:
  "0 \<le> sin ((lat2 - lat1) * pi / 180 / 2) * sin ((lat2 - lat1) * pi / 180 / 2) +
         cos (lat1 * pi / 180) * cos (lat2 * pi / 180) *
         sin ((lon2 - lon1) * pi / 180 / 2) * sin ((lon2 - lon1) * pi / 180 / 2)
   \<and> sin ((lat2 - lat1) * pi / 180 / 2) * sin ((lat2 - lat1) * pi / 180 / 2) +
         cos (lat1 * pi / 180) * cos (lat2 * pi / 180) *
         sin ((lon2 - lon1) * pi / 180 / 2) * sin ((lon2 - lon1) * pi / 180 / 2) \<le> 1"
proof -
  have e: "(lat2 - lat1) * pi / 180 / 2 = (lat2 * pi / 180 - lat1 * pi / 180) / 2"
    by (simp add: left_diff_distrib diff_divide_distrib)
  show ?thesis
    unfolding e
    by (rule haversine_radicand [of "lat2 * pi / 180" "lat1 * pi / 180" "(lon2 - lon1) * pi / 180 / 2"])
qed

subsection \<open>Array.prototype.sort with a comparator that subtracts keys\<close>

lemma js_insert_insort_key:
  assumes "\<And>a b. (cmp a b \<le> 0) = (key a \<le> key b)"
  shows "js_insert cmp x ys = insort_key key x ys"
  by (induction ys) (simp_all add: assms)

lemma Array_sort_sort_key:
  fixes key :: "'a \<Rightarrow> 'k::linorder"
  assumes "\<And>a b. (cmp a b \<le> 0) = (key a \<le> key b)"
  shows "Array_sort cmp xs = sort_key key xs"
proof -
  have "js_insert cmp = insort_key key"
    using js_insert_insort_key [of cmp key, OF assms] by (intro ext)
  then show ?thesis by (simp add: Array_sort_def sort_key_def)
qed

lemma filter_take_prefix: "prefix (filter P (take n xs)) (filter P xs)"
proof -
  have "filter P xs = filter P (take n xs) @ filter P (drop n xs)"
    by (metis append_take_drop_id filter_append)
  then show ?thesis by (simp add: prefix_def)
qed

lemma slice0_take: "\<exists>n. slice0 e xs = take n xs"
  by (auto simp add: slice0_def Let_def)

subsection \<open>top\<close>

lemma top_handler_fetched:
  assumes "fetchJSON net (SummaryFeed (feedMap (t_period inp))) = Inr data"
  shows "top_handler net inp =
     ([SummaryFeed (feedMap (t_period inp))],
      Inr \<lparr>to_period = t_period inp, to_rankBy = t_rankBy inp,
           to_minMagnitude = t_minMagnitude inp,
           totalFiltered = length (filter (\<lambda>f. ToNumber (mag f) \<ge> t_minMagnitude inp) (features data)),
           topEarthquakes = with_ranks (slice0 (t_limit inp) (top_sorted inp data))\<rparr>)"
proof (cases "t_rankBy inp")
  case ByMagnitude
  have "Array_sort (\<lambda>a b. ToNumber (mag b) - ToNumber (mag a)) xs
        = sort_key (\<lambda>f. - rankField ByMagnitude (formatQuake f)) xs" for xs
    by (rule Array_sort_sort_key) (simp add: rankField_def formatQuake_def)
  then show ?thesis using assms ByMagnitude
    by (simp add: top_handler_def Let_def top_sorted_def)
next
  case BySignificance
  have "Array_sort (\<lambda>a b. real_of_int (ToNumber (sig b) - ToNumber (sig a))) xs
        = sort_key (\<lambda>f. - rankField BySignificance (formatQuake f)) xs" for xs
    by (rule Array_sort_sort_key) (simp add: rankField_def formatQuake_def)
  then show ?thesis using assms BySignificance
    by (simp add: top_handler_def Let_def top_sorted_def)
qed


lemma length_with_ranks: "length (with_ranks fs) = length fs"
  by (simp add: with_ranks_def)

lemma nth_with_ranks:
  "i < length fs \<Longrightarrow> with_ranks fs ! i = quake.extend (formatQuake (fs ! i)) \<lparr>rank = i + 1\<rparr>"
  by (simp add: with_ranks_def nth_enumerate_eq)

lemma rank_extend: "rank (quake.extend q \<lparr>rank = n\<rparr>) = n"
  by (simp add: quake.extend_def)

lemma truncate_extend: "quake.truncate (quake.extend (formatQuake f) \<lparr>rank = n\<rparr>) = formatQuake f"
  by (simp add: quake.extend_def quake.truncate_def formatQuake_def)

lemma magnitude_extend: "magnitude (quake.extend (formatQuake f) \<lparr>rank = n\<rparr>) = mag f"
  by (simp add: quake.extend_def formatQuake_def)

lemma rankField_extend:
  "rankField rb (quake.extend (formatQuake f) \<lparr>rank = n\<rparr>) = rankField rb (formatQuake f)"
  by (cases rb) (simp_all add: quake.extend_def formatQuake_def rankField_def)

lemma truncate_with_ranks: "map quake.truncate (with_ranks fs) = map formatQuake fs"
  by (rule nth_equalityI) (simp_all add: length_with_ranks nth_with_ranks truncate_extend)

lemma set_with_ranks:
  "q \<in> set (with_ranks fs) \<Longrightarrow> \<exists>f n. f \<in> set fs \<and> q = quake.extend (formatQuake f) \<lparr>rank = n\<rparr>"
proof -
  assume "q \<in> set (with_ranks fs)"
  then obtain i where i: "i < length (with_ranks fs)" "with_ranks fs ! i = q"
    by (auto simp add: in_set_conv_nth)
  then have "i < length fs" by (simp add: length_with_ranks)
  then have "fs ! i \<in> set fs" "q = quake.extend (formatQuake (fs ! i)) \<lparr>rank = i + 1\<rparr>"
    using i(2) by (simp_all add: nth_with_ranks)
  then show ?thesis by blast
qed

lemma set_slice0: "set (slice0 e xs) \<subseteq> set xs"
  using slice0_take [of e xs] by (auto dest: in_set_takeD)

lemma set_top_sorted:
  "f \<in> set (top_sorted inp data) \<Longrightarrow> f \<in> set (features data) \<and> ToNumber (mag f) \<ge> t_minMagnitude inp"
  by (simp add: top_sorted_def)

lemma sorted_top_sorted:
  "sorted (map (\<lambda>f. - rankField (t_rankBy inp) (formatQuake f)) (top_sorted inp data))"
  by (simp add: top_sorted_def)

lemma sorted_slice0:
  "sorted (map k xs) \<Longrightarrow> sorted (map k (slice0 e xs))"
proof -
  assume s: "sorted (map k xs)"
  obtain n where n: "slice0 e xs = take n xs" using slice0_take by blast
  have "sorted (take n (map k xs))" using s by (rule sorted_wrt_take)
  then show ?thesis by (simp add: n take_map)
qed

lemma stable_top_sorted:
  "filter (\<lambda>f. rankField (t_rankBy inp) (formatQuake f) = k) (top_sorted inp data)
   = filter (\<lambda>f. ToNumber (mag f) \<ge> t_minMagnitude inp \<and> rankField (t_rankBy inp) (formatQuake f) = k)
       (features data)"
proof -
  have "filter (\<lambda>f. rankField (t_rankBy inp) (formatQuake f) = k) (top_sorted inp data)
      = filter (\<lambda>f. - rankField (t_rankBy inp) (formatQuake f) = - k) (top_sorted inp data)"
    by simp
  also have "\<dots> = filter (\<lambda>f. - rankField (t_rankBy inp) (formatQuake f) = - k)
       (filter (\<lambda>f. ToNumber (mag f) \<ge> t_minMagnitude inp) (features data))"
    unfolding top_sorted_def by (rule sort_key_stable)
  also have "\<dots> = filter (\<lambda>f. ToNumber (mag f) \<ge> t_minMagnitude inp \<and> rankField (t_rankBy inp) (formatQuake f) = k)
       (features data)"
    by (simp add: conj_commute)
  finally show ?thesis .
qed

text \<open>
  A list in non-increasing order of a key whose records of each key value are those of a
  given list, in that list's order, is determined by the given list: two such lists are
  equal. So the conditions on \<open>S\<close> in the theorem below name one sequence.
\<close>

lemma top_order_unique:
  fixes key :: "'a \<Rightarrow> real"
  assumes "mset S = mset xs" "sorted_wrt (\<lambda>a b. key a \<ge> key b) S"
    "\<forall>k. filter (\<lambda>f. key f = k) S = filter (\<lambda>f. key f = k) xs"
    and "mset S' = mset xs" "sorted_wrt (\<lambda>a b. key a \<ge> key b) S'"
    "\<forall>k. filter (\<lambda>f. key f = k) S' = filter (\<lambda>f. key f = k) xs"
  shows "S = S'"
proof -
  have one: "sort_key (\<lambda>f. - key f) xs = T"
    if "mset T = mset xs" "sorted_wrt (\<lambda>a b. key a \<ge> key b) T"
      "\<forall>k. filter (\<lambda>f. key f = k) T = filter (\<lambda>f. key f = k) xs" for T
  proof (rule properties_for_sort_key)
    show "mset T = mset xs" by (rule that(1))
    show "filter (\<lambda>x. - key k = - key x) T = filter (\<lambda>x. - key k = - key x) xs" for k
    proof -
      have "(\<lambda>x. - key k = - key x) = (\<lambda>f. key f = key k)" by auto
      then show ?thesis using that(3) by simp
    qed
    show "sorted (map (\<lambda>f. - key f) T)"
      using that(2) by (simp add: sorted_map)
  qed
  from one [OF assms(1-3)] one [OF assms(4-6)] show ?thesis by simp
qed

lemma slice0_nonneg: "0 \<le> e \<Longrightarrow> slice0 e xs = take (nat \<lfloor>e\<rfloor>) xs"
  by (simp add: slice0_def Let_def)

lemma mset_top_sorted:
  "mset (top_sorted inp data) = mset (filter (\<lambda>f. ToNumber (mag f) \<ge> t_minMagnitude inp) (features data))"
  by (simp add: top_sorted_def)

lemma sorted_wrt_top_sorted:
  "sorted_wrt (\<lambda>a b. rankField (t_rankBy inp) (formatQuake a) \<ge> rankField (t_rankBy inp) (formatQuake b))
     (top_sorted inp data)"
  using sorted_top_sorted [of inp data] by (simp add: sorted_map)

text \<open>
  Claim C2. When the feed is fetched, the top handler returns a result in which every
  record has a magnitude of at least \<open>minMagnitude\<close> (a \<^verbatim>\<open>null\<close> magnitude counts as 0 in
  the comparison of the code, so it passes only when \<open>minMagnitude \<le> 0\<close>; a record with a
  number as magnitude has that number at least \<open>minMagnitude\<close>); the records are in
  non-increasing order of the chosen ranking field; for every value of that field, the
  returned records with that value are the first ones, in feed order, of the feed's records
  with that value that pass the filter; and the record at position \<open>i\<close> (from 0) has the
  rank \<open>i + 1\<close>.

  The result is moreover determined. Let \<open>S\<close> be the sequence of all records that pass the
  filter, in non-increasing order of the ranking field, records of equal field in feed
  order. The handler returns \<open>S\<close> truncated by \<^verbatim>\<open>slice(0, limit)\<close>: as many records as the
  truncated sequence has, the record at position \<open>i\<close> being the formatted record at position
  \<open>i\<close> of the truncated sequence with the rank \<open>i + 1\<close>. For \<open>limit \<ge> 0\<close> the truncated
  sequence is the first \<open>\<lfloor>limit\<rfloor>\<close> records of \<open>S\<close>, so the result has \<open>\<lfloor>limit\<rfloor>\<close> records, or all
  that pass the filter when there are fewer; \<open>totalFiltered\<close> is the number that pass.
\<close>

theorem top_filtered_sorted_stable_ranked:
  assumes "fetchJSON net (SummaryFeed (feedMap (t_period inp))) = Inr data"
  shows "\<exists>out S. top_handler net inp = ([SummaryFeed (feedMap (t_period inp))], Inr out)
     \<and> (\<forall>q \<in> set (topEarthquakes out). ToNumber (magnitude q) \<ge> t_minMagnitude inp)
     \<and> (\<forall>q \<in> set (topEarthquakes out). \<forall>m. magnitude q = Some m \<longrightarrow> m \<ge> t_minMagnitude inp)
     \<and> sorted_wrt (\<lambda>a b. rankField (t_rankBy inp) a \<ge> rankField (t_rankBy inp) b) (topEarthquakes out)
     \<and> (\<forall>k. prefix
            (filter (\<lambda>q. rankField (t_rankBy inp) q = k) (map quake.truncate (topEarthquakes out)))
            (map formatQuake
              (filter (\<lambda>f. ToNumber (mag f) \<ge> t_minMagnitude inp
                           \<and> rankField (t_rankBy inp) (formatQuake f) = k) (features data))))
     \<and> (\<forall>i < length (topEarthquakes out). rank (topEarthquakes out ! i) = i + 1)
     \<and> totalFiltered out
         = length (filter (\<lambda>f. ToNumber (mag f) \<ge> t_minMagnitude inp) (features data))
     \<and> mset S = mset (filter (\<lambda>f. ToNumber (mag f) \<ge> t_minMagnitude inp) (features data))
     \<and> sorted_wrt (\<lambda>a b. rankField (t_rankBy inp) (formatQuake a)
                           \<ge> rankField (t_rankBy inp) (formatQuake b)) S
     \<and> (\<forall>k. filter (\<lambda>f. rankField (t_rankBy inp) (formatQuake f) = k) S
             = filter (\<lambda>f. ToNumber (mag f) \<ge> t_minMagnitude inp
                          \<and> rankField (t_rankBy inp) (formatQuake f) = k) (features data))
     \<and> length (topEarthquakes out) = length (slice0 (t_limit inp) S)
     \<and> (\<forall>i < length (slice0 (t_limit inp) S).
           topEarthquakes out ! i
             = quake.extend (formatQuake (slice0 (t_limit inp) S ! i)) \<lparr>rank = i + 1\<rparr>)
     \<and> (0 \<le> t_limit inp \<longrightarrow>
           slice0 (t_limit inp) S = take (nat \<lfloor>t_limit inp\<rfloor>) S
           \<and> length (topEarthquakes out)
               = min (nat \<lfloor>t_limit inp\<rfloor>)
                   (length (filter (\<lambda>f. ToNumber (mag f) \<ge> t_minMagnitude inp) (features data))))"
proof -
  define S where "S = top_sorted inp data"
  define T where "T = slice0 (t_limit inp) S"
  define out where "out = \<lparr>to_period = t_period inp, to_rankBy = t_rankBy inp,
           to_minMagnitude = t_minMagnitude inp,
           totalFiltered = length (filter (\<lambda>f. ToNumber (mag f) \<ge> t_minMagnitude inp) (features data)),
           topEarthquakes = with_ranks T\<rparr>"
  have run: "top_handler net inp = ([SummaryFeed (feedMap (t_period inp))], Inr out)"
    using top_handler_fetched [OF assms] by (simp add: out_def T_def S_def)
  have tq: "topEarthquakes out = with_ranks T" by (simp add: out_def)
  have Tsub: "f \<in> set T \<Longrightarrow> f \<in> set (features data) \<and> ToNumber (mag f) \<ge> t_minMagnitude inp" for f
    using set_slice0 [of "t_limit inp" "top_sorted inp data"] set_top_sorted [of f inp data]
    by (auto simp add: T_def S_def)
  have p1: "\<forall>q \<in> set (topEarthquakes out). ToNumber (magnitude q) \<ge> t_minMagnitude inp"
  proof
    fix q assume "q \<in> set (topEarthquakes out)"
    then obtain f n where "f \<in> set T" "q = quake.extend (formatQuake f) \<lparr>rank = n\<rparr>"
      using set_with_ranks tq by metis
    then show "ToNumber (magnitude q) \<ge> t_minMagnitude inp"
      using Tsub by (simp add: magnitude_extend)
  qed
  have p2: "\<forall>q \<in> set (topEarthquakes out). \<forall>m. magnitude q = Some m \<longrightarrow> m \<ge> t_minMagnitude inp"
    using p1 by (auto simp add: ToNumber_def)
  have Tsorted: "sorted (map (\<lambda>f. - rankField (t_rankBy inp) (formatQuake f)) T)"
    unfolding T_def S_def by (rule sorted_slice0) (rule sorted_top_sorted)
  have p3: "sorted_wrt (\<lambda>a b. rankField (t_rankBy inp) a \<ge> rankField (t_rankBy inp) b) (topEarthquakes out)"
    unfolding sorted_wrt_iff_nth_less
  proof (intro allI impI)
    fix i j assume ij: "i < j" "j < length (topEarthquakes out)"
    then have jT: "j < length T" and iT: "i < length T" by (simp_all add: tq length_with_ranks)
    have "(map (\<lambda>f. - rankField (t_rankBy inp) (formatQuake f)) T) ! i
          \<le> (map (\<lambda>f. - rankField (t_rankBy inp) (formatQuake f)) T) ! j"
      using Tsorted ij(1) jT by (simp add: sorted_iff_nth_mono del: nth_map)
    then have "rankField (t_rankBy inp) (formatQuake (T ! j)) \<le> rankField (t_rankBy inp) (formatQuake (T ! i))"
      using iT jT by simp
    then show "rankField (t_rankBy inp) (topEarthquakes out ! j) \<le> rankField (t_rankBy inp) (topEarthquakes out ! i)"
      using iT jT by (simp add: tq nth_with_ranks rankField_extend)
  qed
  have p4: "\<forall>k. prefix
            (filter (\<lambda>q. rankField (t_rankBy inp) q = k) (map quake.truncate (topEarthquakes out)))
            (map formatQuake
              (filter (\<lambda>f. ToNumber (mag f) \<ge> t_minMagnitude inp
                           \<and> rankField (t_rankBy inp) (formatQuake f) = k) (features data)))"
  proof
    fix k
    obtain n where n: "T = take n (top_sorted inp data)"
      using slice0_take [of "t_limit inp" "top_sorted inp data"] by (auto simp add: T_def S_def)
    have "filter (\<lambda>q. rankField (t_rankBy inp) q = k) (map quake.truncate (topEarthquakes out))
          = map formatQuake (filter (\<lambda>f. rankField (t_rankBy inp) (formatQuake f) = k) T)"
      by (simp add: tq truncate_with_ranks filter_map comp_def)
    moreover have "prefix (filter (\<lambda>f. rankField (t_rankBy inp) (formatQuake f) = k) T)
        (filter (\<lambda>f. rankField (t_rankBy inp) (formatQuake f) = k) (top_sorted inp data))"
      unfolding n by (rule filter_take_prefix)
    ultimately show "prefix
            (filter (\<lambda>q. rankField (t_rankBy inp) q = k) (map quake.truncate (topEarthquakes out)))
            (map formatQuake
              (filter (\<lambda>f. ToNumber (mag f) \<ge> t_minMagnitude inp
                           \<and> rankField (t_rankBy inp) (formatQuake f) = k) (features data)))"
      by (simp add: stable_top_sorted map_mono_prefix)
  qed
  have p5: "\<forall>i < length (topEarthquakes out). rank (topEarthquakes out ! i) = i + 1"
    by (simp add: tq length_with_ranks nth_with_ranks rank_extend)
  have p6: "totalFiltered out
         = length (filter (\<lambda>f. ToNumber (mag f) \<ge> t_minMagnitude inp) (features data))"
    by (simp add: out_def)
  have p7: "mset S = mset (filter (\<lambda>f. ToNumber (mag f) \<ge> t_minMagnitude inp) (features data))"
    unfolding S_def by (rule mset_top_sorted)
  have p8: "sorted_wrt (\<lambda>a b. rankField (t_rankBy inp) (formatQuake a)
                           \<ge> rankField (t_rankBy inp) (formatQuake b)) S"
    unfolding S_def by (rule sorted_wrt_top_sorted)
  have p9: "\<forall>k. filter (\<lambda>f. rankField (t_rankBy inp) (formatQuake f) = k) S
             = filter (\<lambda>f. ToNumber (mag f) \<ge> t_minMagnitude inp
                          \<and> rankField (t_rankBy inp) (formatQuake f) = k) (features data)"
    unfolding S_def by (simp add: stable_top_sorted)
  have p10: "length (topEarthquakes out) = length (slice0 (t_limit inp) S)"
    by (simp add: tq length_with_ranks T_def)
  have p11: "\<forall>i < length (slice0 (t_limit inp) S).
           topEarthquakes out ! i
             = quake.extend (formatQuake (slice0 (t_limit inp) S ! i)) \<lparr>rank = i + 1\<rparr>"
    using nth_with_ranks [of _ T] by (simp add: tq T_def)
  have lenS: "length S = length (filter (\<lambda>f. ToNumber (mag f) \<ge> t_minMagnitude inp) (features data))"
    using p7 by (metis size_mset)
  have p12: "0 \<le> t_limit inp \<longrightarrow>
           slice0 (t_limit inp) S = take (nat \<lfloor>t_limit inp\<rfloor>) S
           \<and> length (topEarthquakes out)
               = min (nat \<lfloor>t_limit inp\<rfloor>)
                   (length (filter (\<lambda>f. ToNumber (mag f) \<ge> t_minMagnitude inp) (features data)))"
  proof
    assume nn: "0 \<le> t_limit inp"
    have sl: "slice0 (t_limit inp) S = take (nat \<lfloor>t_limit inp\<rfloor>) S"
      by (rule slice0_nonneg [OF nn])
    then show "slice0 (t_limit inp) S = take (nat \<lfloor>t_limit inp\<rfloor>) S
           \<and> length (topEarthquakes out)
               = min (nat \<lfloor>t_limit inp\<rfloor>)
                   (length (filter (\<lambda>f. ToNumber (mag f) \<ge> t_minMagnitude inp) (features data)))"
      using p10 lenS by (simp add: min.commute)
  qed
  from run p1 p2 p3 p4 p5 p6 p7 p8 p9 p10 p11 p12 show ?thesis by blast
qed


theorem top_filtered_sorted_stable_ranked_witness:
  "fetchJSON sample_upstream (SummaryFeed (feedMap Week)) = Inr sample_week
   \<and> (\<exists>out. top_handler sample_upstream
               \<lparr>t_period = Week, t_rankBy = ByMagnitude, t_minMagnitude = 9 / 2, t_limit = 2\<rparr>
             = ([SummaryFeed ''all_week.geojson''], Inr out)
        \<and> totalFiltered out = 3
        \<and> length (topEarthquakes out) = min 2 3
        \<and> map qid (topEarthquakes out) = [''b'', ''a'']
        \<and> map rank (topEarthquakes out) = [1, 2]
        \<and> (\<forall>q \<in> set (topEarthquakes out). ToNumber (magnitude q) \<ge> 9 / 2)
        \<and> (\<forall>i < length (topEarthquakes out). rank (topEarthquakes out ! i) = i + 1))
   \<and> map (\<lambda>q. (qid q, rank q)) (topEarthquakes (projr (snd (top_handler sample_upstream
        \<lparr>t_period = Week, t_rankBy = ByMagnitude, t_minMagnitude = 9 / 2, t_limit = 1\<rparr>))))
       = [(''b'', 1)]
   \<and> map (\<lambda>q. (qid q, rank q)) (topEarthquakes (projr (snd (top_handler sample_upstream
        \<lparr>t_period = Week, t_rankBy = ByMagnitude, t_minMagnitude = 9 / 2, t_limit = 10\<rparr>))))
       = [(''b'', 1), (''a'', 2), (''c'', 3)]
   \<and> map (\<lambda>q. (qid q, rank q)) (topEarthquakes (projr (snd (top_handler sample_upstream
        \<lparr>t_period = Week, t_rankBy = BySignificance, t_minMagnitude = 0, t_limit = 3\<rparr>))))
       = [(''b'', 1), (''c'', 2), (''a'', 3)]"
proof -
  let ?inp = "\<lparr>t_period = Week, t_rankBy = ByMagnitude, t_minMagnitude = 9 / 2, t_limit = 2\<rparr>"
  note ev = top_handler_def fetchJSON_def sample_upstream_def response_ok_def sample_week_def
        sample_feature_def ToNumber_def Array_sort_def slice0_def formatQuake_def quake.extend_def
        with_ranks_def Let_def
  have fetched: "fetchJSON sample_upstream (SummaryFeed (feedMap (t_period ?inp))) = Inr sample_week"
    by (simp add: fetchJSON_def sample_upstream_def response_ok_def)
  have passing: "length (filter (\<lambda>f. ToNumber (mag f) \<ge> t_minMagnitude ?inp) (features sample_week)) = 3"
    by (simp add: sample_week_def sample_feature_def ToNumber_def)
  from top_filtered_sorted_stable_ranked [OF fetched]
  obtain out where run: "top_handler sample_upstream ?inp = ([SummaryFeed ''all_week.geojson''], Inr out)"
    and ge: "\<forall>q \<in> set (topEarthquakes out). ToNumber (magnitude q) \<ge> 9 / 2"
    and rk: "\<forall>i < length (topEarthquakes out). rank (topEarthquakes out ! i) = i + 1"
    and tf: "totalFiltered out
         = length (filter (\<lambda>f. ToNumber (mag f) \<ge> t_minMagnitude ?inp) (features sample_week))"
    and len: "0 \<le> t_limit ?inp \<longrightarrow> length (topEarthquakes out)
               = min (nat \<lfloor>t_limit ?inp\<rfloor>)
                   (length (filter (\<lambda>f. ToNumber (mag f) \<ge> t_minMagnitude ?inp) (features sample_week)))"
    by auto
  have total: "totalFiltered out = 3" using tf passing by simp
  have two: "length (topEarthquakes out) = min 2 3" using len passing by simp
  have "map (\<lambda>q. (qid q, rank q)) (topEarthquakes (projr (snd (top_handler sample_upstream ?inp))))
        = [(''b'', 1), (''a'', 2)]"
    by (simp add: ev)
  then have "map (\<lambda>q. (qid q, rank q)) (topEarthquakes out) = [(''b'', 1), (''a'', 2)]"
    using run by simp
  then have ids: "map qid (topEarthquakes out) = [''b'', ''a'']" "map rank (topEarthquakes out) = [1, 2]"
    by (auto simp add: map_eq_Cons_conv)
  have one: "map (\<lambda>q. (qid q, rank q)) (topEarthquakes (projr (snd (top_handler sample_upstream
        \<lparr>t_period = Week, t_rankBy = ByMagnitude, t_minMagnitude = 9 / 2, t_limit = 1\<rparr>))))
       = [(''b'', 1)]"
    by (simp add: ev)
  have ten: "map (\<lambda>q. (qid q, rank q)) (topEarthquakes (projr (snd (top_handler sample_upstream
        \<lparr>t_period = Week, t_rankBy = ByMagnitude, t_minMagnitude = 9 / 2, t_limit = 10\<rparr>))))
       = [(''b'', 1), (''a'', 2), (''c'', 3)]"
    by (simp add: ev)
  have bysig: "map (\<lambda>q. (qid q, rank q)) (topEarthquakes (projr (snd (top_handler sample_upstream
        \<lparr>t_period = Week, t_rankBy = BySignificance, t_minMagnitude = 0, t_limit = 3\<rparr>))))
       = [(''b'', 1), (''c'', 2), (''a'', 3)]"
    by (simp add: ev)
  from run total two ids ge rk fetched one ten bysig show ?thesis by auto
qed

subsection \<open>nearby\<close>

lemma haversine_self: "haversineDistance la lo la lo = 0"
  by (simp add: haversineDistance_def Math_atan2_def)

lemma haversine_antipode: "haversineDistance 0 0 0 180 = 6371 * pi"
  by (simp add: haversineDistance_def Math_atan2_def)

lemma nearby_sort:
  "Array_sort (\<lambda>a b. real_of_int (distanceKm a - distanceKm b)) xs = sort_key distanceKm xs"
  "Array_sort (\<lambda>a b. real_of_int (distanceKm a) - real_of_int (distanceKm b)) xs = sort_key distanceKm xs"
  by (rule Array_sort_sort_key, simp)+

lemma nearby_handler_fetched:
  assumes "fetchUSGS net (nearby_endpoint (n_minMagnitude inp)) = Inr data"
  shows "nearby_handler net inp =
     ([SummaryFeed (nearby_endpoint (n_minMagnitude inp))],
      Inr \<lparr>searchCenter = (n_latitude inp, n_longitude inp),
           no_radiusKm = n_radiusKm inp, no_minMagnitude = n_minMagnitude inp,
           found = length (filter (within_radius inp) (features data)),
           nearby_earthquakes = nearby_sorted inp data\<rparr>)"
  using assms by (simp add: nearby_handler_def Let_def nearby_sort nearby_sorted_def)

lemma within_radius_iff:
  "within_radius inp f \<longleftrightarrow>
     haversineDistance (n_latitude inp) (n_longitude inp) (lat f) (lon f) \<le> n_radiusKm inp"
  by (simp add: within_radius_def)

lemma with_distance_coords:
  "pq_latitude (with_distance inp f) = lat f" "pq_longitude (with_distance inp f) = lon f"
  "distanceKm (with_distance inp f)
     = Math_round (haversineDistance (n_latitude inp) (n_longitude inp) (lat f) (lon f))"
  by (simp_all add: with_distance_def parseQuakes_def parseQuake_def parsed_quake.extend_def)

lemma antipode_far: "\<not> 6371 * pi \<le> 100"
  using pi_ge_two by simp

lemma sample_nearby_fetched:
  "fetchUSGS sample_day_upstream (nearby_endpoint (n_minMagnitude sample_nearby_input)) = Inr sample_day25"
  by (simp add: fetchUSGS_def fetchJSON_def sample_day_upstream_def response_ok_def
      nearby_endpoint_def sample_nearby_input_def)

lemma sample_nearby_run:
  "map (\<lambda>q. (pq_id q, pq_magnitude q, distanceKm q))
     (nearby_earthquakes (projr (snd (nearby_handler sample_day_upstream sample_nearby_input))))
   = [(''x'', Some (5 / 2), 0), (''z'', Some 4, 0)]"
  by (simp add: nearby_handler_def fetchUSGS_def fetchJSON_def sample_day_upstream_def response_ok_def
      nearby_endpoint_def sample_nearby_input_def sample_day25_def sample_feature_def
      within_radius_def with_distance_def parseQuakes_def parseQuake_def parsed_quake.extend_def
      Array_sort_def Math_round_def haversine_self haversine_antipode antipode_far Let_def)

text \<open>
  Claim C3. When the feed is fetched, the nearby handler returns a result whose records
  are in ascending order of \<open>distanceKm\<close> (the rounded distance); every returned record lies
  at a Haversine distance from the center of at most \<open>radiusKm\<close>; and for every value of
  \<open>distanceKm\<close> the returned records with that value are the feed's records within the radius
  with that value, in feed order.
\<close>

theorem nearby_sorted_within_stable:
  assumes "fetchUSGS net (nearby_endpoint (n_minMagnitude inp)) = Inr data"
  shows "\<exists>out. nearby_handler net inp = ([SummaryFeed (nearby_endpoint (n_minMagnitude inp))], Inr out)
     \<and> sorted (map distanceKm (nearby_earthquakes out))
     \<and> (\<forall>q \<in> set (nearby_earthquakes out).
           haversineDistance (n_latitude inp) (n_longitude inp) (pq_latitude q) (pq_longitude q)
             \<le> n_radiusKm inp)
     \<and> (\<forall>d. filter (\<lambda>q. distanceKm q = d) (nearby_earthquakes out)
             = map (with_distance inp)
                 (filter (\<lambda>f. haversineDistance (n_latitude inp) (n_longitude inp) (lat f) (lon f)
                                \<le> n_radiusKm inp
                              \<and> Math_round (haversineDistance (n_latitude inp) (n_longitude inp) (lat f) (lon f)) = d)
                    (features data)))"
proof -
  let ?out = "\<lparr>searchCenter = (n_latitude inp, n_longitude inp),
           no_radiusKm = n_radiusKm inp, no_minMagnitude = n_minMagnitude inp,
           found = length (filter (within_radius inp) (features data)),
           nearby_earthquakes = nearby_sorted inp data\<rparr>"
  have run: "nearby_handler net inp = ([SummaryFeed (nearby_endpoint (n_minMagnitude inp))], Inr ?out)"
    by (rule nearby_handler_fetched [OF assms])
  have p1: "sorted (map distanceKm (nearby_earthquakes ?out))"
    by (simp add: nearby_sorted_def)
  have p2: "\<forall>q \<in> set (nearby_earthquakes ?out).
           haversineDistance (n_latitude inp) (n_longitude inp) (pq_latitude q) (pq_longitude q)
             \<le> n_radiusKm inp"
    by (auto simp add: nearby_sorted_def with_distance_coords within_radius_iff)
  have p3: "filter (\<lambda>q. distanceKm q = d) (nearby_earthquakes ?out)
             = map (with_distance inp)
                 (filter (\<lambda>f. haversineDistance (n_latitude inp) (n_longitude inp) (lat f) (lon f)
                                \<le> n_radiusKm inp
                              \<and> Math_round (haversineDistance (n_latitude inp) (n_longitude inp) (lat f) (lon f)) = d)
                    (features data))" for d
  proof -
    have "filter (\<lambda>q. distanceKm q = d) (nearby_earthquakes ?out)
        = filter (\<lambda>q. distanceKm q = d) (map (with_distance inp) (filter (within_radius inp) (features data)))"
      by (simp add: nearby_sorted_def sort_key_stable)
    also have "\<dots> = map (with_distance inp)
       (filter (\<lambda>f. distanceKm (with_distance inp f) = d) (filter (within_radius inp) (features data)))"
      by (simp add: filter_map comp_def)
    finally show ?thesis
      by (simp add: with_distance_coords within_radius_iff conj_commute)
  qed
  from run p1 p2 p3 show ?thesis by blast
qed

theorem nearby_sorted_within_stable_witness:
  "fetchUSGS sample_day_upstream (nearby_endpoint (n_minMagnitude sample_nearby_input)) = Inr sample_day25
   \<and> (\<exists>out. nearby_handler sample_day_upstream sample_nearby_input
               = ([SummaryFeed ''2.5_day.geojson''], Inr out)
        \<and> map pq_id (nearby_earthquakes out) = [''x'', ''z'']
        \<and> map distanceKm (nearby_earthquakes out) = [0, 0]
        \<and> sorted (map distanceKm (nearby_earthquakes out))
        \<and> (\<forall>q \<in> set (nearby_earthquakes out).
              haversineDistance 0 0 (pq_latitude q) (pq_longitude q) \<le> 100))"
proof -
  from nearby_sorted_within_stable [OF sample_nearby_fetched]
  obtain out where run: "nearby_handler sample_day_upstream sample_nearby_input
               = ([SummaryFeed (nearby_endpoint (n_minMagnitude sample_nearby_input))], Inr out)"
    and srt: "sorted (map distanceKm (nearby_earthquakes out))"
    and within: "\<forall>q \<in> set (nearby_earthquakes out).
       haversineDistance (n_latitude sample_nearby_input) (n_longitude sample_nearby_input)
         (pq_latitude q) (pq_longitude q) \<le> n_radiusKm sample_nearby_input"
    by blast
  have "map (\<lambda>q. (pq_id q, pq_magnitude q, distanceKm q)) (nearby_earthquakes out)
        = [(''x'', Some (5 / 2), 0), (''z'', Some 4, 0)]"
    using sample_nearby_run run by simp
  then have ids: "map pq_id (nearby_earthquakes out) = [''x'', ''z'']"
    and ds: "map distanceKm (nearby_earthquakes out) = [0, 0]"
    by (auto simp add: map_eq_Cons_conv)
  have ep: "nearby_endpoint (n_minMagnitude sample_nearby_input) = ''2.5_day.geojson''"
    by (simp add: nearby_endpoint_def sample_nearby_input_def)
  from within have "\<forall>q \<in> set (nearby_earthquakes out).
              haversineDistance 0 0 (pq_latitude q) (pq_longitude q) \<le> 100"
    by (simp add: sample_nearby_input_def)
  with run srt ids ds ep sample_nearby_fetched show ?thesis by simp
qed

text \<open>
  Claim C10. The nearby handler filters by distance only: the returned records are, as a
  multiset, the records of the selected feed within the radius, and a record within the
  radius is returned also when its magnitude is below \<open>minMagnitude\<close>.
\<close>

theorem nearby_no_magnitude_filter:
  assumes "fetchUSGS net (nearby_endpoint (n_minMagnitude inp)) = Inr data"
  shows "\<exists>out. nearby_handler net inp = ([SummaryFeed (nearby_endpoint (n_minMagnitude inp))], Inr out)
     \<and> mset (nearby_earthquakes out)
         = mset (map (with_distance inp)
                  (filter (\<lambda>f. haversineDistance (n_latitude inp) (n_longitude inp) (lat f) (lon f)
                                 \<le> n_radiusKm inp) (features data)))
     \<and> (\<forall>f \<in> set (features data).
           haversineDistance (n_latitude inp) (n_longitude inp) (lat f) (lon f) \<le> n_radiusKm inp
           \<and> ToNumber (mag f) < n_minMagnitude inp
           \<longrightarrow> with_distance inp f \<in> set (nearby_earthquakes out))"
proof -
  let ?out = "\<lparr>searchCenter = (n_latitude inp, n_longitude inp),
           no_radiusKm = n_radiusKm inp, no_minMagnitude = n_minMagnitude inp,
           found = length (filter (within_radius inp) (features data)),
           nearby_earthquakes = nearby_sorted inp data\<rparr>"
  have run: "nearby_handler net inp = ([SummaryFeed (nearby_endpoint (n_minMagnitude inp))], Inr ?out)"
    by (rule nearby_handler_fetched [OF assms])
  have w: "within_radius inp = (\<lambda>f. haversineDistance (n_latitude inp) (n_longitude inp) (lat f) (lon f)
                                 \<le> n_radiusKm inp)"
    by (rule ext) (rule within_radius_iff)
  have p1: "mset (nearby_earthquakes ?out)
         = mset (map (with_distance inp)
                  (filter (\<lambda>f. haversineDistance (n_latitude inp) (n_longitude inp) (lat f) (lon f)
                                 \<le> n_radiusKm inp) (features data)))"
    by (simp add: nearby_sorted_def w)
  have p2: "\<forall>f \<in> set (features data).
           haversineDistance (n_latitude inp) (n_longitude inp) (lat f) (lon f) \<le> n_radiusKm inp
           \<and> ToNumber (mag f) < n_minMagnitude inp
           \<longrightarrow> with_distance inp f \<in> set (nearby_earthquakes ?out)"
    by (simp add: nearby_sorted_def w)
  from run p1 p2 show ?thesis by blast
qed


theorem nearby_no_magnitude_filter_witness:
  "fetchUSGS sample_day_upstream (nearby_endpoint (n_minMagnitude sample_nearby_input)) = Inr sample_day25
   \<and> n_minMagnitude sample_nearby_input = 3
   \<and> nearby_endpoint 3 = day_feed T25
   \<and> sample_feature ''x'' (Some (5 / 2)) None 0 0 \<in> set (features sample_day25)
   \<and> haversineDistance 0 0 0 0 \<le> n_radiusKm sample_nearby_input
   \<and> ToNumber (mag (sample_feature ''x'' (Some (5 / 2)) None 0 0)) < n_minMagnitude sample_nearby_input
   \<and> (\<exists>out. nearby_handler sample_day_upstream sample_nearby_input
               = ([SummaryFeed ''2.5_day.geojson''], Inr out)
        \<and> with_distance sample_nearby_input (sample_feature ''x'' (Some (5 / 2)) None 0 0)
             \<in> set (nearby_earthquakes out)
        \<and> map pq_magnitude (nearby_earthquakes out) = [Some (5 / 2), Some 4])"
proof -
  let ?x = "sample_feature ''x'' (Some (5 / 2)) None 0 0"
  from nearby_no_magnitude_filter [OF sample_nearby_fetched]
  obtain out where run: "nearby_handler sample_day_upstream sample_nearby_input
               = ([SummaryFeed (nearby_endpoint (n_minMagnitude sample_nearby_input))], Inr out)"
    and kept: "\<forall>f \<in> set (features sample_day25).
           haversineDistance (n_latitude sample_nearby_input) (n_longitude sample_nearby_input) (lat f) (lon f)
             \<le> n_radiusKm sample_nearby_input
           \<and> ToNumber (mag f) < n_minMagnitude sample_nearby_input
           \<longrightarrow> with_distance sample_nearby_input f \<in> set (nearby_earthquakes out)"
    by blast
  have mem: "?x \<in> set (features sample_day25)"
    by (simp add: sample_day25_def)
  have near: "haversineDistance 0 0 0 0 \<le> n_radiusKm sample_nearby_input"
    by (simp add: haversine_self sample_nearby_input_def)
  have small: "ToNumber (mag ?x) < n_minMagnitude sample_nearby_input"
    by (simp add: sample_feature_def ToNumber_def sample_nearby_input_def)
  have xin: "with_distance sample_nearby_input ?x \<in> set (nearby_earthquakes out)"
    using kept mem near small by (auto simp add: sample_nearby_input_def sample_feature_def)
  have "map (\<lambda>q. (pq_id q, pq_magnitude q, distanceKm q)) (nearby_earthquakes out)
        = [(''x'', Some (5 / 2), 0), (''z'', Some 4, 0)]"
    using sample_nearby_run run by simp
  then have mags: "map pq_magnitude (nearby_earthquakes out) = [Some (5 / 2), Some 4]"
    by (auto simp add: map_eq_Cons_conv)
  have ep: "nearby_endpoint (n_minMagnitude sample_nearby_input) = ''2.5_day.geojson''"
       "nearby_endpoint 3 = day_feed T25" "n_minMagnitude sample_nearby_input = 3"
    by (simp_all add: nearby_endpoint_def sample_nearby_input_def)
  from run xin mags ep mem near small sample_nearby_fetched show ?thesis by simp
qed

subsection \<open>Promise.all\<close>

lemma Promise_all_rejects:
  assumes "\<exists>p \<in> set ps. isl p"
  shows "\<exists>e. Promise_all ps = Inl e \<and> Inl e \<in> set ps"
  using assms
proof (induction ps rule: Promise_all.induct)
  case 1
  then show ?case by simp
next
  case (2 e ps)
  then show ?case by simp
next
  case (3 v ps)
  then have "\<exists>p \<in> set ps. isl p" by simp
  with 3 obtain e where "Promise_all ps = Inl e" "Inl e \<in> set ps" by blast
  then show ?case by simp
qed

lemma Promise_all_fulfils:
  assumes "\<forall>p \<in> set ps. \<not> isl p"
  shows "Promise_all ps = Inr (map projr ps)"
  using assms
proof (induction ps rule: Promise_all.induct)
  case 1
  then show ?case by simp
next
  case (2 e ps)
  then show ?case by simp
next
  case (3 v ps)
  then show ?case by simp
qed

lemma compare_region_rejects:
  "isl (compare_region clk net m r) = isl (fetchJSON net (compare_url clk m r))"
  "compare_region clk net m r = Inl e \<longleftrightarrow> fetchJSON net (compare_url clk m r) = Inl e"
  by (simp_all add: compare_region_def split: sum.splits)

lemma batch_rejects:
  assumes "\<exists>u \<in> set us. isl (fetch u)"
  shows "\<exists>e. \<exists>u \<in> set us. fetch u = Inl e \<and> Promise_all (map fetch us) = Inl e"
proof -
  have "\<exists>p \<in> set (map fetch us). isl p" using assms by simp
  then obtain e where e: "Promise_all (map fetch us) = Inl e" "Inl e \<in> set (map fetch us)"
    using Promise_all_rejects by blast
  then obtain u where "u \<in> set us" "fetch u = Inl e" by auto
  with e show ?thesis by blast
qed

text \<open>
  Claim C5. In each handler that awaits a batch of fetches with \<^verbatim>\<open>Promise.all\<close> (the region
  fetches of compare, the four fetches of the report, the feeds of both overviews and of
  the regional report), when one fetch of the batch fails, the handler fails with the
  error of a failed fetch of the batch: its outcome is an error and carries no result.
\<close>

theorem fan_out_fails_as_a_whole:
  "((\<exists>r \<in> set (c_regions ci). isl (fetchJSON net (compare_url clk (c_minMagnitude ci) r))) \<longrightarrow>
      (\<exists>e. \<exists>r \<in> set (c_regions ci). fetchJSON net (compare_url clk (c_minMagnitude ci) r) = Inl e
            \<and> snd (compare_handler clk net ci) = Inl e))
   \<and> ((\<exists>u \<in> set (report_urls clk ri). isl (fetchJSON net u)) \<longrightarrow>
      (\<exists>e. \<exists>u \<in> set (report_urls clk ri). fetchJSON net u = Inl e
            \<and> snd (report_handler clk net ri) = Inl e))
   \<and> ((\<exists>u \<in> set overview_urls. isl (fetchJSON net u)) \<longrightarrow>
      (\<exists>e. \<exists>u \<in> set overview_urls. fetchJSON net u = Inl e \<and> snd (overview_handler net) = Inl e))
   \<and> ((\<exists>n \<in> set overviewB_endpoints. isl (fetchUSGS net n)) \<longrightarrow>
      (\<exists>e. \<exists>n \<in> set overviewB_endpoints. fetchUSGS net n = Inl e \<and> snd (overviewB_handler net) = Inl e))
   \<and> ((\<exists>n \<in> set regional_endpoints. isl (fetchUSGS net n)) \<longrightarrow>
      (\<exists>e. \<exists>n \<in> set regional_endpoints. fetchUSGS net n = Inl e
            \<and> snd (regional_handler net region) = Inl e))"
proof -
  have a: "(\<exists>r \<in> set (c_regions ci). isl (fetchJSON net (compare_url clk (c_minMagnitude ci) r))) \<longrightarrow>
      (\<exists>e. \<exists>r \<in> set (c_regions ci). fetchJSON net (compare_url clk (c_minMagnitude ci) r) = Inl e
            \<and> snd (compare_handler clk net ci) = Inl e)"
  proof
    assume "\<exists>r \<in> set (c_regions ci). isl (fetchJSON net (compare_url clk (c_minMagnitude ci) r))"
    then have "\<exists>r \<in> set (c_regions ci). isl (compare_region clk net (c_minMagnitude ci) r)"
      by (simp add: compare_region_rejects)
    from batch_rejects [OF this]
    obtain e r where "r \<in> set (c_regions ci)" "compare_region clk net (c_minMagnitude ci) r = Inl e"
      "Promise_all (map (compare_region clk net (c_minMagnitude ci)) (c_regions ci)) = Inl e"
      by blast
    then show "\<exists>e. \<exists>r \<in> set (c_regions ci). fetchJSON net (compare_url clk (c_minMagnitude ci) r) = Inl e
            \<and> snd (compare_handler clk net ci) = Inl e"
      by (auto simp add: compare_region_rejects compare_handler_def)
  qed
  have b: "(\<exists>u \<in> set (report_urls clk ri). isl (fetchJSON net u)) \<longrightarrow>
      (\<exists>e. \<exists>u \<in> set (report_urls clk ri). fetchJSON net u = Inl e
            \<and> snd (report_handler clk net ri) = Inl e)"
  proof
    assume "\<exists>u \<in> set (report_urls clk ri). isl (fetchJSON net u)"
    from batch_rejects [OF this]
    show "\<exists>e. \<exists>u \<in> set (report_urls clk ri). fetchJSON net u = Inl e
            \<and> snd (report_handler clk net ri) = Inl e"
      by (auto simp add: report_handler_def)
  qed
  have c: "(\<exists>u \<in> set overview_urls. isl (fetchJSON net u)) \<longrightarrow>
      (\<exists>e. \<exists>u \<in> set overview_urls. fetchJSON net u = Inl e \<and> snd (overview_handler net) = Inl e)"
  proof
    assume "\<exists>u \<in> set overview_urls. isl (fetchJSON net u)"
    from batch_rejects [OF this]
    show "\<exists>e. \<exists>u \<in> set overview_urls. fetchJSON net u = Inl e \<and> snd (overview_handler net) = Inl e"
      by (auto simp add: overview_handler_def)
  qed
  have d: "(\<exists>n \<in> set overviewB_endpoints. isl (fetchUSGS net n)) \<longrightarrow>
      (\<exists>e. \<exists>n \<in> set overviewB_endpoints. fetchUSGS net n = Inl e \<and> snd (overviewB_handler net) = Inl e)"
  proof
    assume "\<exists>n \<in> set overviewB_endpoints. isl (fetchUSGS net n)"
    from batch_rejects [OF this]
    show "\<exists>e. \<exists>n \<in> set overviewB_endpoints. fetchUSGS net n = Inl e \<and> snd (overviewB_handler net) = Inl e"
      by (auto simp add: overviewB_handler_def)
  qed
  have e: "(\<exists>n \<in> set regional_endpoints. isl (fetchUSGS net n)) \<longrightarrow>
      (\<exists>e. \<exists>n \<in> set regional_endpoints. fetchUSGS net n = Inl e
            \<and> snd (regional_handler net region) = Inl e)"
  proof
    assume "\<exists>n \<in> set regional_endpoints. isl (fetchUSGS net n)"
    from batch_rejects [OF this]
    show "\<exists>e. \<exists>n \<in> set regional_endpoints. fetchUSGS net n = Inl e
            \<and> snd (regional_handler net region) = Inl e"
      by (auto simp add: regional_handler_def)
  qed
  from a b c d e show ?thesis by blast
qed

theorem fan_out_fails_as_a_whole_witness:
  "(\<exists>r \<in> set [sample_region ''A'' 10, sample_region ''B'' 20].
       isl (fetchJSON flaky_upstream (compare_url sample_clock (5 / 2) r)))
   \<and> \<not> isl (fetchJSON flaky_upstream (compare_url sample_clock (5 / 2) (sample_region ''A'' 10)))
   \<and> snd (compare_handler sample_clock flaky_upstream
            \<lparr>c_regions = [sample_region ''A'' 10, sample_region ''B'' 20], c_minMagnitude = 5 / 2\<rparr>)
       = Inl FetchRejected
   \<and> (\<exists>u \<in> set (report_urls sample_clock \<lparr>rp_latitude = 10, rp_longitude = 0\<rparr>).
         isl (fetchJSON flaky_upstream u))
   \<and> snd (report_handler sample_clock flaky_upstream \<lparr>rp_latitude = 10, rp_longitude = 0\<rparr>)
       = Inl (UsgsApiError 503)
   \<and> (\<exists>u \<in> set overview_urls. isl (fetchJSON flaky_upstream u))
   \<and> snd (overview_handler flaky_upstream) = Inl (UsgsApiError 503)
   \<and> (\<exists>n \<in> set overviewB_endpoints. isl (fetchUSGS flaky_upstream n))
   \<and> snd (overviewB_handler flaky_upstream) = Inl (UsgsApiError 503)
   \<and> (\<exists>n \<in> set regional_endpoints. isl (fetchUSGS flaky_upstream n))
   \<and> snd (regional_handler flaky_upstream Pacific) = Inl (UsgsApiError 503)"
proof -
  let ?ci = "\<lparr>c_regions = [sample_region ''A'' 10, sample_region ''B'' 20], c_minMagnitude = 5 / 2\<rparr>"
  let ?ri = "\<lparr>rp_latitude = 10, rp_longitude = 0\<rparr>"
  note ev = fetchJSON_def fetchUSGS_def flaky_upstream_def response_ok_def compare_url_def
    sample_region_def sample_clock_def report_urls_def overview_urls_def overviewB_endpoints_def
    regional_endpoints_def
  have h1: "\<exists>r \<in> set (c_regions ?ci). isl (fetchJSON flaky_upstream (compare_url sample_clock (c_minMagnitude ?ci) r))"
    by (simp add: ev)
  have h2: "\<exists>u \<in> set (report_urls sample_clock ?ri). isl (fetchJSON flaky_upstream u)"
    by (simp add: ev)
  have h3: "\<exists>u \<in> set overview_urls. isl (fetchJSON flaky_upstream u)"
    by (simp add: ev)
  have h4: "\<exists>n \<in> set overviewB_endpoints. isl (fetchUSGS flaky_upstream n)"
    by (simp add: ev)
  have h5: "\<exists>n \<in> set regional_endpoints. isl (fetchUSGS flaky_upstream n)"
    by (simp add: ev)
  have ok: "\<not> isl (fetchJSON flaky_upstream (compare_url sample_clock (5 / 2) (sample_region ''A'' 10)))"
    by (simp add: ev)
  from fan_out_fails_as_a_whole [of ?ci flaky_upstream sample_clock ?ri Pacific] h1 h2 h3 h4 h5
  have fails: "isl (snd (compare_handler sample_clock flaky_upstream ?ci))"
    "isl (snd (report_handler sample_clock flaky_upstream ?ri))"
    "isl (snd (overview_handler flaky_upstream))"
    "isl (snd (overviewB_handler flaky_upstream))"
    "isl (snd (regional_handler flaky_upstream Pacific))"
    by auto
  have r1: "snd (compare_handler sample_clock flaky_upstream ?ci) = Inl FetchRejected"
    using fails(1) by (simp add: compare_handler_def compare_region_def ev)
  have r2: "snd (report_handler sample_clock flaky_upstream ?ri) = Inl (UsgsApiError 503)"
    using fails(2) by (simp add: report_handler_def ev)
  have r3: "snd (overview_handler flaky_upstream) = Inl (UsgsApiError 503)"
    using fails(3) by (simp add: overview_handler_def ev)
  have r4: "snd (overviewB_handler flaky_upstream) = Inl (UsgsApiError 503)"
    using fails(4) by (simp add: overviewB_handler_def ev)
  have r5: "snd (regional_handler flaky_upstream Pacific) = Inl (UsgsApiError 503)"
    using fails(5) by (simp add: regional_handler_def ev)
  from h1 h2 h3 h4 h5 ok r1 r2 r3 r4 r5 show ?thesis by simp
qed

subsection \<open>Validation\<close>

text \<open>
  Claim C6. A search body whose \<open>radiusKm\<close> is below 1 or above 20000, and a compare body
  with fewer than 2 or more than 5 regions, fail with a validation error and no request
  is made; so does every body its schema rejects. A body the schema accepts makes the
  requests of the handler.
\<close>

theorem out_of_range_rejected_before_fetch:
  "(sb_radiusKm sb = Some rad \<and> (rad < 1 \<or> rad > 20000) \<longrightarrow>
      search_entrypoint clk net sb = ([], Inl ValidationError))
   \<and> (length (cb_regions cb) < 2 \<or> length (cb_regions cb) > 5 \<longrightarrow>
      compare_entrypoint clk net cb = ([], Inl ValidationError))
   \<and> (parse_search sb = None \<longrightarrow> search_entrypoint clk net sb = ([], Inl ValidationError))
   \<and> (parse_compare cb = None \<longrightarrow> compare_entrypoint clk net cb = ([], Inl ValidationError))
   \<and> (\<forall>si. parse_search sb = Some si \<longrightarrow> fst (search_entrypoint clk net sb) = [search_url clk si])
   \<and> (\<forall>ci. parse_compare cb = Some ci \<longrightarrow>
        fst (compare_entrypoint clk net cb) = map (compare_url clk (c_minMagnitude ci)) (c_regions ci)
        \<and> length (c_regions ci) = length (cb_regions cb))"
proof -
  have a: "sb_radiusKm sb = Some rad \<and> (rad < 1 \<or> rad > 20000) \<longrightarrow> parse_search sb = None"
    by (auto simp add: parse_search_def opt_in_range_def in_range_def)
  have b: "length (cb_regions cb) < 2 \<or> length (cb_regions cb) > 5 \<longrightarrow> parse_compare cb = None"
    by (auto simp add: parse_compare_def)
  have c: "parse_search sb = None \<longrightarrow> search_entrypoint clk net sb = ([], Inl ValidationError)"
    by (simp add: search_entrypoint_def)
  have d: "parse_compare cb = None \<longrightarrow> compare_entrypoint clk net cb = ([], Inl ValidationError)"
    by (simp add: compare_entrypoint_def)
  have e: "\<forall>si. parse_search sb = Some si \<longrightarrow> fst (search_entrypoint clk net sb) = [search_url clk si]"
    by (simp add: search_entrypoint_def search_handler_def)
  have f: "\<forall>ci. parse_compare cb = Some ci \<longrightarrow>
        fst (compare_entrypoint clk net cb) = map (compare_url clk (c_minMagnitude ci)) (c_regions ci)
        \<and> length (c_regions ci) = length (cb_regions cb)"
    by (auto simp add: compare_entrypoint_def compare_handler_def parse_compare_def split: if_splits)
  from a b c d e f show ?thesis by blast
qed


theorem out_of_range_rejected_before_fetch_witness:
  "search_entrypoint sample_clock flaky_upstream (sample_search_body (Some 0)) = ([], Inl ValidationError)
   \<and> search_entrypoint sample_clock flaky_upstream (sample_search_body (Some 25000))
       = ([], Inl ValidationError)
   \<and> compare_entrypoint sample_clock flaky_upstream (sample_compare_body 1) = ([], Inl ValidationError)
   \<and> compare_entrypoint sample_clock flaky_upstream (sample_compare_body 6) = ([], Inl ValidationError)
   \<and> length (fst (search_entrypoint sample_clock flaky_upstream (sample_search_body (Some 1)))) = 1
   \<and> length (fst (search_entrypoint sample_clock flaky_upstream (sample_search_body (Some 20000)))) = 1
   \<and> length (fst (compare_entrypoint sample_clock flaky_upstream (sample_compare_body 2))) = 2
   \<and> length (fst (compare_entrypoint sample_clock flaky_upstream (sample_compare_body 5))) = 5"
proof -
  note bodies = sample_search_body_def sample_compare_body_def
  have lo: "search_entrypoint sample_clock flaky_upstream (sample_search_body (Some 0))
            = ([], Inl ValidationError)"
    using out_of_range_rejected_before_fetch
      [of "sample_search_body (Some 0)" 0 sample_clock flaky_upstream "sample_compare_body 1"]
    by (simp add: bodies)
  have one: "compare_entrypoint sample_clock flaky_upstream (sample_compare_body 1)
            = ([], Inl ValidationError)"
    using out_of_range_rejected_before_fetch
      [of "sample_search_body (Some 0)" 0 sample_clock flaky_upstream "sample_compare_body 1"]
    by (simp add: bodies)
  have hi: "search_entrypoint sample_clock flaky_upstream (sample_search_body (Some 25000))
            = ([], Inl ValidationError)"
    using out_of_range_rejected_before_fetch
      [of "sample_search_body (Some 25000)" 25000 sample_clock flaky_upstream "sample_compare_body 6"]
    by (simp add: bodies)
  have six: "compare_entrypoint sample_clock flaky_upstream (sample_compare_body 6)
            = ([], Inl ValidationError)"
    using out_of_range_rejected_before_fetch
      [of "sample_search_body (Some 25000)" 25000 sample_clock flaky_upstream "sample_compare_body 6"]
    by (simp add: bodies)
  have valid_search:
    "length (fst (search_entrypoint sample_clock flaky_upstream (sample_search_body (Some 1)))) = 1"
    "length (fst (search_entrypoint sample_clock flaky_upstream (sample_search_body (Some 20000)))) = 1"
    by (simp_all add: bodies search_entrypoint_def parse_search_def in_range_def opt_in_range_def
        search_handler_def)
  have valid_compare:
    "length (fst (compare_entrypoint sample_clock flaky_upstream (sample_compare_body 2))) = 2"
    "length (fst (compare_entrypoint sample_clock flaky_upstream (sample_compare_body 5))) = 5"
    by (simp_all add: bodies compare_entrypoint_def parse_compare_def in_range_def opt_in_range_def
        region_valid_def compare_handler_def list_all_iff)
  from lo hi one six valid_search valid_compare show ?thesis by simp
qed

subsection \<open>compare\<close>

lemma fold_keep_first_max:
  fixes key :: "'a \<Rightarrow> real"
  shows "\<exists>i < length (acc # fs).
           fold (\<lambda>f mx. if key f > key mx then f else mx) fs acc = (acc # fs) ! i
         \<and> (\<forall>j < length (acc # fs). key ((acc # fs) ! j) \<le> key ((acc # fs) ! i))
         \<and> (\<forall>j < i. key ((acc # fs) ! j) < key ((acc # fs) ! i))"
proof (induction fs rule: rev_induct)
  case Nil
  show ?case by simp
next
  case (snoc x fs)
  define L where "L = acc # fs"
  define L' where "L' = acc # fs @ [x]"
  let ?step = "\<lambda>f mx. if key f > key mx then f else mx"
  have L': "L' = L @ [x]" by (simp add: L_def L'_def)
  have old: "j < length L \<Longrightarrow> L' ! j = L ! j" for j
    by (simp add: L' nth_append)
  have new: "L' ! length L = x"
    by (simp add: L')
  have len: "length L' = Suc (length L)"
    by (simp add: L')
  from snoc obtain i where i: "i < length L" "fold ?step fs acc = L ! i"
    and mx: "\<forall>j < length L. key (L ! j) \<le> key (L ! i)"
    and first: "\<forall>j < i. key (L ! j) < key (L ! i)"
    unfolding L_def by blast
  have step: "fold ?step (fs @ [x]) acc = (if key x > key (L ! i) then x else L ! i)"
    using i(2) by simp
  have "\<exists>i < length L'. fold ?step (fs @ [x]) acc = L' ! i
         \<and> (\<forall>j < length L'. key (L' ! j) \<le> key (L' ! i))
         \<and> (\<forall>j < i. key (L' ! j) < key (L' ! i))"
  proof (cases "key x > key (L ! i)")
    case True
    have r: "fold ?step (fs @ [x]) acc = L' ! length L"
      using True step new by simp
    have a: "key (L' ! j) \<le> key (L' ! length L)" if "j < length L'" for j
    proof (cases "j < length L")
      case True
      then have "key (L ! j) \<le> key (L ! i)" using mx by blast
      then show ?thesis using \<open>key x > key (L ! i)\<close> True by (simp add: old new)
    next
      case False
      then have "j = length L" using that len by simp
      then show ?thesis by simp
    qed
    have b: "key (L' ! j) < key (L' ! length L)" if "j < length L" for j
    proof -
      have "key (L ! j) \<le> key (L ! i)" using mx that by blast
      then show ?thesis using True that by (simp add: old new)
    qed
    have "length L < length L'" by (simp add: len)
    then show ?thesis using r a b by blast
  next
    case False
    have r: "fold ?step (fs @ [x]) acc = L' ! i"
      using False step i(1) by (simp add: old)
    have a: "key (L' ! j) \<le> key (L' ! i)" if "j < length L'" for j
    proof (cases "j < length L")
      case True
      then have "key (L ! j) \<le> key (L ! i)" using mx by blast
      then show ?thesis using True i(1) by (simp add: old)
    next
      case nl: False
      then have "j = length L" using that len by simp
      then show ?thesis using False i(1) by (simp add: old new)
    qed
    have b: "key (L' ! j) < key (L' ! i)" if "j < i" for j
    proof -
      have "key (L ! j) < key (L ! i)" using first that by blast
      then show ?thesis using that i(1) by (simp add: old)
    qed
    have "i < length L'" using i(1) by (simp add: len)
    then show ?thesis using r a b by blast
  qed
  then show ?case unfolding L'_def .
qed

lemma largest_first_max:
  assumes "fs = f0 # rest"
  shows "\<exists>i < length fs. largest f0 fs = fs ! i
         \<and> (\<forall>j < length fs. ToNumber (mag (fs ! j)) \<le> ToNumber (mag (fs ! i)))
         \<and> (\<forall>j < i. ToNumber (mag (fs ! j)) < ToNumber (mag (fs ! i)))"
proof -
  have "largest f0 fs = fold (\<lambda>f mx. if ToNumber (mag f) > ToNumber (mag mx) then f else mx) rest f0"
    by (simp add: largest_def assms)
  then show ?thesis
    using fold_keep_first_max [of f0 rest "\<lambda>f. ToNumber (mag f)"] assms by simp
qed

lemma foldl_plus_ToNumber:
  "foldl (\<lambda>a b. a + ToNumber b) (s::real) ms = s + sum_list (map ToNumber ms)"
  by (induction ms arbitrary: s) (simp_all add: add.assoc)

lemma Math_max_Max: "xs \<noteq> [] \<Longrightarrow> Math_max xs = Max (set xs)"
  by (cases xs) (simp_all add: Max.set_eq_fold [symmetric])

lemma toFixed2_zero: "toFixed2 0 = 0"
  by (simp add: toFixed2_def)

lemma region_summary_empty:
  assumes "features d = []"
  shows "averageMagnitude (stats (region_summary r d)) = 0"
    "maxMagnitude (stats (region_summary r d)) = 0"
    "topQuake (region_summary r d) = None"
  using assms by (simp_all add: region_summary_def Let_def toFixed2_zero)

lemma region_summary_counts:
  "quakesAbove4 (stats (region_summary r d)) = length (filter (\<lambda>f. ToNumber (mag f) \<ge> 4) (features d))"
  "quakesAbove5 (stats (region_summary r d)) = length (filter (\<lambda>f. ToNumber (mag f) \<ge> 5) (features d))"
  "totalQuakes (stats (region_summary r d)) = count d"
  "rr_region (region_summary r d) = r_name r"
  by (simp_all add: region_summary_def Let_def filter_map comp_def)

lemma region_summary_nonempty:
  assumes "features d \<noteq> []"
  shows "averageMagnitude (stats (region_summary r d))
           = toFixed2 (sum_list (map (\<lambda>f. ToNumber (mag f)) (features d)) / real (length (features d)))"
    "maxMagnitude (stats (region_summary r d)) = Max ((\<lambda>f. ToNumber (mag f)) ` set (features d))"
  using assms by (simp_all add: region_summary_def Let_def foldl_plus_ToNumber Math_max_Max comp_def)

lemma region_summary_topQuake:
  assumes "features d \<noteq> []"
  shows "\<exists>i < length (features d). topQuake (region_summary r d) = Some (formatQuake (features d ! i))
         \<and> (\<forall>j < length (features d). ToNumber (mag (features d ! j)) \<le> ToNumber (mag (features d ! i)))
         \<and> (\<forall>j < i. ToNumber (mag (features d ! j)) < ToNumber (mag (features d ! i)))"
proof -
  from assms obtain f0 rest where fs: "features d = f0 # rest" by (cases "features d") auto
  have "topQuake (region_summary r d) = Some (formatQuake (largest f0 (features d)))"
    by (simp add: region_summary_def Let_def fs)
  then show ?thesis using largest_first_max [OF fs] by auto
qed


lemma compare_sort:
  "Array_sort (\<lambda>a b. real_of_int (totalQuakes (stats b) - totalQuakes (stats a))) xs = by_activity xs"
  "Array_sort (\<lambda>a b. real_of_int (totalQuakes (stats b)) - real_of_int (totalQuakes (stats a))) xs
     = by_activity xs"
  unfolding by_activity_def by (rule Array_sort_sort_key, simp)+

lemma by_activity_facts:
  "set (by_activity rs) = set rs" "length (by_activity rs) = length rs"
  "mset (by_activity rs) = mset rs"
  "sorted (map (\<lambda>s. - totalQuakes (stats s)) (by_activity rs))"
  by (simp_all add: by_activity_def)

lemma by_activity_first:
  assumes "rs \<noteq> []"
  shows "by_activity rs ! 0 \<in> set rs"
    "\<forall>s \<in> set rs. totalQuakes (stats s) \<le> totalQuakes (stats (by_activity rs ! 0))"
proof -
  have ne: "by_activity rs \<noteq> []" using assms by_activity_facts(2) [of rs] by auto
  then obtain y ys where ys: "by_activity rs = y # ys" by (cases "by_activity rs") auto
  then have "y \<in> set rs" using by_activity_facts(1) [of rs] by auto
  then show "by_activity rs ! 0 \<in> set rs" by (simp add: ys)
  have "sorted (map (\<lambda>s. - totalQuakes (stats s)) (y # ys))"
    using by_activity_facts(4) [of rs] by (simp add: ys)
  then have "\<forall>s \<in> set (y # ys). - totalQuakes (stats y) \<le> - totalQuakes (stats s)"
    by auto
  moreover have "set rs = set (y # ys)"
    using by_activity_facts(1) [of rs] by (simp add: ys)
  ultimately show "\<forall>s \<in> set rs. totalQuakes (stats s) \<le> totalQuakes (stats (by_activity rs ! 0))"
    by (simp add: ys)
qed

lemma by_activity_last:
  assumes "rs \<noteq> []"
  shows "by_activity rs ! (length (by_activity rs) - 1) \<in> set rs"
    "\<forall>s \<in> set rs. totalQuakes (stats (by_activity rs ! (length (by_activity rs) - 1)))
                     \<le> totalQuakes (stats s)"
proof -
  let ?R = "by_activity rs"
  have ne: "?R \<noteq> []" using assms by_activity_facts(2) [of rs] by auto
  have l: "?R ! (length ?R - 1) = last ?R" using ne by (simp add: last_conv_nth)
  have "last ?R \<in> set ?R" using ne by simp
  then show "?R ! (length ?R - 1) \<in> set rs" using by_activity_facts(1) [of rs] l by simp
  show "\<forall>s \<in> set rs. totalQuakes (stats (?R ! (length ?R - 1))) \<le> totalQuakes (stats s)"
  proof
    fix s assume "s \<in> set rs"
    then have "s \<in> set ?R" using by_activity_facts(1) [of rs] by simp
    then obtain k where k: "k < length ?R" "?R ! k = s" by (auto simp add: in_set_conv_nth)
    let ?K = "map (\<lambda>s. - totalQuakes (stats s)) ?R"
    have "k \<le> length ?R - 1" "length ?R - 1 < length ?K" using k(1) by simp_all
    then have "?K ! k \<le> ?K ! (length ?R - 1)"
      using by_activity_facts(4) [of rs] sorted_nth_mono by blast
    then show "totalQuakes (stats (?R ! (length ?R - 1))) \<le> totalQuakes (stats s)"
      using k by simp
  qed
qed

lemma compare_regions_fulfil:
  assumes "\<forall>r \<in> set rs. \<not> isl (fetchJSON net (compare_url clk m r))"
  shows "Promise_all (map (compare_region clk net m) rs)
         = Inr (map (\<lambda>r. region_summary r (projr (fetchJSON net (compare_url clk m r)))) rs)"
proof -
  have "\<forall>p \<in> set (map (compare_region clk net m) rs). \<not> isl p"
    using assms by (simp add: compare_region_rejects)
  then have "Promise_all (map (compare_region clk net m) rs)
             = Inr (map projr (map (compare_region clk net m) rs))"
    by (rule Promise_all_fulfils)
  moreover have "map projr (map (compare_region clk net m) rs)
        = map (\<lambda>r. region_summary r (projr (fetchJSON net (compare_url clk m r)))) rs"
    using assms by (auto simp add: compare_region_def split: sum.splits)
  ultimately show ?thesis by simp
qed

lemma compare_handler_fulfilled:
  assumes "\<forall>r \<in> set (c_regions ci). \<not> isl (fetchJSON net (compare_url clk (c_minMagnitude ci) r))"
    and "c_regions ci \<noteq> []"
    and "results = map (\<lambda>r. region_summary r (projr (fetchJSON net (compare_url clk (c_minMagnitude ci) r))))
                    (c_regions ci)"
  shows "snd (compare_handler clk net ci) =
     Inr \<lparr>periodDays = 7, co_minMagnitude = c_minMagnitude ci, comparison = results,
          mostActive = rr_region (by_activity results ! 0),
          leastActive = rr_region (by_activity results ! (length (by_activity results) - 1)),
          byTotalQuakes = map (\<lambda>r. (rr_region r, totalQuakes (stats r))) (by_activity results)\<rparr>"
proof -
  have "results \<noteq> []" using assms(2,3) by simp
  then have "by_activity results \<noteq> []" using by_activity_facts(2) [of results] by auto
  then show ?thesis
    using compare_regions_fulfil [OF assms(1)] assms(3)
    by (simp add: compare_handler_def compare_sort Let_def)
qed

text \<open>
  Claim C4. When every region's fetch succeeds (the schema admits 2 to 5 regions; the
  handler needs one), compare returns one summary per region, in input order. A region
  with no record has mean magnitude 0, maximal magnitude 0 and no top quake. A region
  with records has the mean of its magnitudes rounded to two decimals, their maximum, and
  as top quake the first record whose magnitude is maximal. The two counters count the
  records of magnitude at least 4 and at least 5. The ranking lists the regions by
  \<open>totalQuakes\<close> in non-increasing order; \<open>mostActive\<close> names a region whose count is the
  largest and \<open>leastActive\<close> a region whose count is the smallest. (A \<^verbatim>\<open>null\<close> magnitude
  counts as 0 throughout, as in the code.)
\<close>

theorem compare_stats_and_ranking:
  assumes "\<forall>r \<in> set (c_regions ci). \<not> isl (fetchJSON net (compare_url clk (c_minMagnitude ci) r))"
    and "c_regions ci \<noteq> []"
  shows "\<exists>out. snd (compare_handler clk net ci) = Inr out
     \<and> comparison out
         = map (\<lambda>r. region_summary r (projr (fetchJSON net (compare_url clk (c_minMagnitude ci) r))))
             (c_regions ci)
     \<and> (\<forall>r d. features d = [] \<longrightarrow>
           averageMagnitude (stats (region_summary r d)) = 0
           \<and> maxMagnitude (stats (region_summary r d)) = 0
           \<and> topQuake (region_summary r d) = None)
     \<and> (\<forall>r d. features d \<noteq> [] \<longrightarrow>
           averageMagnitude (stats (region_summary r d))
             = toFixed2 (sum_list (map (\<lambda>f. ToNumber (mag f)) (features d)) / real (length (features d)))
           \<and> maxMagnitude (stats (region_summary r d)) = Max ((\<lambda>f. ToNumber (mag f)) ` set (features d))
           \<and> (\<exists>i < length (features d).
                 topQuake (region_summary r d) = Some (formatQuake (features d ! i))
                 \<and> (\<forall>j < length (features d).
                       ToNumber (mag (features d ! j)) \<le> ToNumber (mag (features d ! i)))
                 \<and> (\<forall>j < i. ToNumber (mag (features d ! j)) < ToNumber (mag (features d ! i)))))
     \<and> (\<forall>r d. quakesAbove4 (stats (region_summary r d))
                 = length (filter (\<lambda>f. ToNumber (mag f) \<ge> 4) (features d))
             \<and> quakesAbove5 (stats (region_summary r d))
                 = length (filter (\<lambda>f. ToNumber (mag f) \<ge> 5) (features d))
             \<and> totalQuakes (stats (region_summary r d)) = count d)
     \<and> sorted_wrt (\<lambda>a b. snd a \<ge> snd b) (byTotalQuakes out)
     \<and> mset (byTotalQuakes out)
         = mset (map (\<lambda>s. (rr_region s, totalQuakes (stats s))) (comparison out))
     \<and> (\<exists>s \<in> set (comparison out). mostActive out = rr_region s
           \<and> (\<forall>s' \<in> set (comparison out). totalQuakes (stats s') \<le> totalQuakes (stats s)))
     \<and> (\<exists>s \<in> set (comparison out). leastActive out = rr_region s
           \<and> (\<forall>s' \<in> set (comparison out). totalQuakes (stats s) \<le> totalQuakes (stats s')))"
proof -
  define results where "results =
     map (\<lambda>r. region_summary r (projr (fetchJSON net (compare_url clk (c_minMagnitude ci) r))))
       (c_regions ci)"
  define out where "out = \<lparr>periodDays = 7, co_minMagnitude = c_minMagnitude ci, comparison = results,
          mostActive = rr_region (by_activity results ! 0),
          leastActive = rr_region (by_activity results ! (length (by_activity results) - 1)),
          byTotalQuakes = map (\<lambda>r. (rr_region r, totalQuakes (stats r))) (by_activity results)\<rparr>"
  have ne: "results \<noteq> []" using assms(2) by (simp add: results_def)
  have run: "snd (compare_handler clk net ci) = Inr out"
    unfolding out_def by (rule compare_handler_fulfilled [OF assms results_def])
  have c: "comparison out = results" by (simp add: out_def)
  have p_empty: "\<forall>r d. features d = [] \<longrightarrow>
           averageMagnitude (stats (region_summary r d)) = 0
           \<and> maxMagnitude (stats (region_summary r d)) = 0
           \<and> topQuake (region_summary r d) = None"
    by (simp add: region_summary_empty)
  have p_nonempty: "\<forall>r d. features d \<noteq> [] \<longrightarrow>
           averageMagnitude (stats (region_summary r d))
             = toFixed2 (sum_list (map (\<lambda>f. ToNumber (mag f)) (features d)) / real (length (features d)))
           \<and> maxMagnitude (stats (region_summary r d)) = Max ((\<lambda>f. ToNumber (mag f)) ` set (features d))
           \<and> (\<exists>i < length (features d).
                 topQuake (region_summary r d) = Some (formatQuake (features d ! i))
                 \<and> (\<forall>j < length (features d).
                       ToNumber (mag (features d ! j)) \<le> ToNumber (mag (features d ! i)))
                 \<and> (\<forall>j < i. ToNumber (mag (features d ! j)) < ToNumber (mag (features d ! i))))"
    using region_summary_nonempty region_summary_topQuake by blast
  have p_counts: "\<forall>r d. quakesAbove4 (stats (region_summary r d))
                 = length (filter (\<lambda>f. ToNumber (mag f) \<ge> 4) (features d))
             \<and> quakesAbove5 (stats (region_summary r d))
                 = length (filter (\<lambda>f. ToNumber (mag f) \<ge> 5) (features d))
             \<and> totalQuakes (stats (region_summary r d)) = count d"
    by (simp add: region_summary_counts)
  have "sorted (map (\<lambda>s. - totalQuakes (stats s)) (by_activity results))"
    by (rule by_activity_facts)
  then have "sorted_wrt (\<lambda>a b. - totalQuakes (stats a) \<le> - totalQuakes (stats b)) (by_activity results)"
    by (simp add: sorted_map)
  then have "sorted_wrt (\<lambda>a b. snd a \<ge> snd b)
       (map (\<lambda>r. (rr_region r, totalQuakes (stats r))) (by_activity results))"
    by (simp add: sorted_wrt_map)
  then have p_sorted: "sorted_wrt (\<lambda>a b. snd a \<ge> snd b) (byTotalQuakes out)"
    by (simp add: out_def)
  have p_perm: "mset (byTotalQuakes out)
         = mset (map (\<lambda>s. (rr_region s, totalQuakes (stats s))) (comparison out))"
    by (simp add: out_def by_activity_facts(3))
  have p_most: "\<exists>s \<in> set (comparison out). mostActive out = rr_region s
           \<and> (\<forall>s' \<in> set (comparison out). totalQuakes (stats s') \<le> totalQuakes (stats s))"
    using by_activity_first [OF ne] by (intro bexI [of _ "by_activity results ! 0"]) (simp_all add: out_def)
  have p_least: "\<exists>s \<in> set (comparison out). leastActive out = rr_region s
           \<and> (\<forall>s' \<in> set (comparison out). totalQuakes (stats s) \<le> totalQuakes (stats s'))"
    using by_activity_last [OF ne]
    by (intro bexI [of _ "by_activity results ! (length (by_activity results) - 1)"])
      (simp_all add: out_def)
  from run c p_empty p_nonempty p_counts p_sorted p_perm p_most p_least
  show ?thesis unfolding results_def [symmetric] by blast
qed


lemma sample_compare_run:
  "map_sum id (\<lambda>out. (mostActive out, leastActive out, byTotalQuakes out,
        map (\<lambda>s. (rr_region s, averageMagnitude (stats s), maxMagnitude (stats s),
                  quakesAbove4 (stats s), quakesAbove5 (stats s), map_option qid (topQuake s)))
          (comparison out)))
     (snd (compare_handler sample_clock regions_upstream
            \<lparr>c_regions = sample_regions, c_minMagnitude = 5 / 2\<rparr>))
   = Inr (''A'', ''D'', [(''A'', 5), (''B'', 3), (''C'', 3), (''D'', 0)],
          [(''A'', 103 / 25, 11 / 2, 3, 2, Some ''a2''), (''B'', 31 / 10, 7 / 2, 0, 0, Some ''b2''),
           (''C'', 5 / 2, 5 / 2, 0, 0, Some ''c1''), (''D'', 0, 0, 0, 0, None)])"
  by (simp add: compare_handler_def compare_region_def compare_url_def fetchJSON_def response_ok_def
      regions_upstream_def sample_regions_def sample_region_def sample_clock_def sample_feature_def
      region_summary_def largest_def ToNumber_def toFixed2_def Array_sort_def formatQuake_def Let_def)

theorem compare_stats_and_ranking_witness:
  "map (\<lambda>r. isl (fetchJSON regions_upstream (compare_url sample_clock (5 / 2) r))) sample_regions
     = [False, False, False, False]
   \<and> sample_regions \<noteq> [] \<and> 2 \<le> length sample_regions \<and> length sample_regions \<le> 5
   \<and> (\<exists>out. snd (compare_handler sample_clock regions_upstream
                    \<lparr>c_regions = sample_regions, c_minMagnitude = 5 / 2\<rparr>) = Inr out
        \<and> map snd (byTotalQuakes out) = [5, 3, 3, 0]
        \<and> mostActive out = ''A'' \<and> leastActive out = ''D''
        \<and> map (\<lambda>s. (rr_region s, averageMagnitude (stats s), maxMagnitude (stats s),
                     quakesAbove4 (stats s), quakesAbove5 (stats s), map_option qid (topQuake s)))
             (comparison out)
           = [(''A'', 103 / 25, 11 / 2, 3, 2, Some ''a2''), (''B'', 31 / 10, 7 / 2, 0, 0, Some ''b2''),
              (''C'', 5 / 2, 5 / 2, 0, 0, Some ''c1''), (''D'', 0, 0, 0, 0, None)])"
proof -
  let ?ci = "\<lparr>c_regions = sample_regions, c_minMagnitude = 5 / 2\<rparr>"
  have ok: "\<forall>r \<in> set (c_regions ?ci).
      \<not> isl (fetchJSON regions_upstream (compare_url sample_clock (c_minMagnitude ?ci) r))"
    by (simp add: sample_regions_def sample_region_def compare_url_def fetchJSON_def
        regions_upstream_def response_ok_def)
  have ne: "c_regions ?ci \<noteq> []"
    by (simp add: sample_regions_def)
  from compare_stats_and_ranking [OF ok ne]
  obtain out where run: "snd (compare_handler sample_clock regions_upstream ?ci) = Inr out"
    by blast
  have "mostActive out = ''A''" "leastActive out = ''D''"
    "byTotalQuakes out = [(''A'', 5), (''B'', 3), (''C'', 3), (''D'', 0)]"
    "map (\<lambda>s. (rr_region s, averageMagnitude (stats s), maxMagnitude (stats s),
                     quakesAbove4 (stats s), quakesAbove5 (stats s), map_option qid (topQuake s)))
             (comparison out)
           = [(''A'', 103 / 25, 11 / 2, 3, 2, Some ''a2''), (''B'', 31 / 10, 7 / 2, 0, 0, Some ''b2''),
              (''C'', 5 / 2, 5 / 2, 0, 0, Some ''c1''), (''D'', 0, 0, 0, 0, None)]"
    using sample_compare_run run by simp_all
  moreover have "2 \<le> length sample_regions" "length sample_regions \<le> 5"
    by (simp_all add: sample_regions_def)
  moreover have "map (\<lambda>r. isl (fetchJSON regions_upstream (compare_url sample_clock (5 / 2) r)))
      sample_regions = [False, False, False, False]"
    using ok by (simp add: sample_regions_def)
  ultimately show ?thesis using ne run by simp
qed

end
